theory Spec2Isabelle
  imports Main
begin

section \<open>Pointers, exceptions and outcomes\<close>

text \<open>
  Native pointers (\<open>Object *\<close>, \<open>MethodDesc *\<close>, \<open>MethodTable *\<close>, \<open>void *\<close>,
  \<open>IUnknown *\<close>) are addresses; the null pointer is address 0.
\<close>

type_synonym addr = nat

abbreviation (input) NULL :: addr where
  "NULL \<equiv> 0"

text \<open>
  The result codes the file names, and two more for failures raised inside services it
  calls: \<open>E_OUTOFMEMORY\<close> (an allocation that fails) and \<open>E_FAIL\<close> (whatever a failed
  \<open>Object::Validate\<close> raises; the handlers catch every exception alike).
\<close>

datatype hresult = COR_E_OVERFLOW | COR_E_EXECUTIONENGINE | E_OUTOFMEMORY | E_FAIL | E_NOINTERFACE

text \<open>
  How a helper can end other than by returning: an exception that unwinds to the caller
  (\<open>Thrown\<close>), the fatal-error policy \<open>EEPOLICY_HANDLE_FATAL_ERROR\<close> taking the process
  down with an optional message (\<open>Fatal\<close>), or an access outside a \<open>CQuickArray\<close>
  (\<open>Undefined\<close>: the array's index operator only asserts the bound).
\<close>

datatype error = Thrown hresult | Fatal hresult "string option" | Undefined

section \<open>The byref validation list (VERIFY_HEAP)\<close>

record ByrefValidationEntry =
  pByref :: addr
  pMD :: addr

text \<open>Calls into the collector, the object validator and the fatal-error policy, as they happen.\<close>

datatype gc_event =
    Ev_GetContainingObject addr
  | Ev_Validate addr bool bool bool
  | Ev_NextObj addr
  | Ev_LoadMethodTable addr
  | Ev_GarbageCollect nat
  | Ev_FatalError hresult "string option"

text \<open>
  The services and constants the file uses and does not define. \<open>ObjectValidate rt obj deep
  nextHeader syncBlock\<close> tells whether \<open>obj->Validate(deep, nextHeader, syncBlock)\<close> passes.
  \<open>SString_Append_fails\<close> and \<open>ReSize_fails\<close> tell which allocations fail.
  \<open>uninitialized\<close> is the content of a slot that a resize has added and nothing has written.
\<close>

record runtime =
  BYREF_VALIDATION_LIST_MAX_SIZE :: nat
  g_pFreeObjectMethodTable :: addr
  NAMESPACE_SEPARATOR_CHAR :: char
  IsHeapPointer :: "addr \<Rightarrow> bool"
  GetContainingObject :: "addr \<Rightarrow> addr"
  NextObj :: "addr \<Rightarrow> addr"
  IsConcurrentGCInProgress :: bool
  GetMethodTablePtr :: "addr \<Rightarrow> addr"
  ObjectValidate :: "addr \<Rightarrow> bool \<Rightarrow> bool \<Rightarrow> bool \<Rightarrow> bool"
  GetInvokeMethod :: "addr \<Rightarrow> addr"
  GetFullyQualifiedNameForClass :: "addr \<Rightarrow> hresult + string"
  GetName :: "addr \<Rightarrow> string"
  SString_Append_fails :: "string \<Rightarrow> string \<Rightarrow> bool"
  ReSize_fails :: "nat \<Rightarrow> bool"
  uninitialized :: "nat \<Rightarrow> ByrefValidationEntry"

text \<open>The statics of \<open>StubHelpers\<close>, and the log of calls made so far.\<close>

record verify_state =
  s_ByrefValidationEntries :: "ByrefValidationEntry list"
  s_ByrefValidationIndex :: nat
  calls :: "gc_event list"

subsection \<open>ValidateObjectInternal\<close>

text \<open>
  \<open>Object::Validate\<close> is not in the file. Whether an object passes is the parameter
  \<open>ObjectValidate\<close>; an object that does not pass raises inside the caller's \<open>EX_TRY\<close>,
  which is what the handlers of the callers are written for. The method table of the next
  object is loaded once (\<open>VolatileLoad\<close>) and the loaded value is compared twice. The heap
  is the one the parameter describes during the call: a method table that another thread
  changes meanwhile is outside this model.
\<close>

definition ValidateObjectInternal ::
  "runtime \<Rightarrow> addr \<Rightarrow> bool \<Rightarrow> gc_event list \<Rightarrow> (hresult + unit) \<times> gc_event list" where
  "ValidateObjectInternal rt pObjUNSAFE fValidateNextObj tr =
     (let tr1 = (if pObjUNSAFE \<noteq> NULL then tr @ [Ev_Validate pObjUNSAFE True False True] else tr)
      in if pObjUNSAFE \<noteq> NULL \<and> \<not> ObjectValidate rt pObjUNSAFE True False True
         then (Inl E_FAIL, tr1)
         else if fValidateNextObj
         then (let nextObj = NextObj rt pObjUNSAFE;
                   tr2 = tr1 @ [Ev_NextObj pObjUNSAFE]
               in if nextObj \<noteq> NULL
                  then (let pMT = GetMethodTablePtr rt nextObj;
                            tr3 = tr2 @ [Ev_LoadMethodTable nextObj]
                        in if pMT \<noteq> NULL \<and> pMT \<noteq> g_pFreeObjectMethodTable rt
                           then (if ObjectValidate rt nextObj True False False
                                 then (Inr (), tr3 @ [Ev_Validate nextObj True False False])
                                 else (Inl E_FAIL, tr3 @ [Ev_Validate nextObj True False False]))
                           else (Inr (), tr3))
                  else (Inr (), tr2))
         else (Inr (), tr1))"

subsection \<open>ResolveInteropMethod and FormatValidationMessage\<close>

definition ResolveInteropMethod :: "runtime \<Rightarrow> addr \<Rightarrow> addr \<Rightarrow> addr" where
  "ResolveInteropMethod rt pThisUNSAFE md =
     (if md = NULL \<and> pThisUNSAFE \<noteq> NULL then GetInvokeMethod rt pThisUNSAFE else md)"

text \<open>
  \<open>SString::Append\<close> is not in the file (\<open>FormatValidationMessage\<close> is declared \<open>THROWS\<close>):
  it appends, or raises when the parameter \<open>SString_Append_fails\<close> says the string cannot grow.
\<close>

definition SString_Append :: "runtime \<Rightarrow> string \<Rightarrow> string \<Rightarrow> hresult + string" where
  "SString_Append rt s t = (if SString_Append_fails rt s t then Inl E_OUTOFMEMORY else Inr (s @ t))"

definition bindE :: "'e + 'a \<Rightarrow> ('a \<Rightarrow> 'e + 'b) \<Rightarrow> 'e + 'b" where
  "bindE m f = (case m of Inl e \<Rightarrow> Inl e | Inr x \<Rightarrow> f x)"

definition FormatValidationMessage :: "runtime \<Rightarrow> addr \<Rightarrow> string \<Rightarrow> hresult + string" where
  "FormatValidationMessage rt md ssErrorString =
     bindE (SString_Append rt ssErrorString
              ''Detected managed heap corruption, likely culprit is interop call through '')
       (\<lambda>s1. if md = NULL
             then SString_Append rt s1 ''CALLI.''
             else bindE (SString_Append rt s1 (''method '' @ [CHR 0x27]))
                    (\<lambda>s2. bindE (GetFullyQualifiedNameForClass rt md)
                    (\<lambda>ssClassName. bindE (SString_Append rt s2 ssClassName)
                    (\<lambda>s3. bindE (SString_Append rt s3 [NAMESPACE_SEPARATOR_CHAR rt])
                    (\<lambda>s4. bindE (SString_Append rt s4 (GetName rt md))
                    (\<lambda>s5. SString_Append rt s5 [CHR 0x27, CHR ''.'']))))))"

subsection \<open>ProcessByrefValidationList\<close>

text \<open>
  The loop \<open>for (SIZE_T i = 0; i < s_ByrefValidationIndex; i++)\<close>. It carries the local
  \<open>entry\<close>, which the handler reads after a failure. Nothing in the body writes the
  statics, so the list \<open>es\<close> and the bound \<open>n\<close> stay fixed.
\<close>

function ProcessByrefValidationList_loop ::
  "runtime \<Rightarrow> ByrefValidationEntry list \<Rightarrow> nat \<Rightarrow> nat \<Rightarrow> ByrefValidationEntry \<Rightarrow> gc_event list
     \<Rightarrow> (error + unit) \<times> ByrefValidationEntry \<times> gc_event list" where
  "ProcessByrefValidationList_loop rt es n i entry tr =
     (if i < n
      then (if i < length es
            then (let entry' = es ! i;
                      tr1 = tr @ [Ev_GetContainingObject (pByref entry')];
                      pObjUNSAFE = GetContainingObject rt (pByref entry')
                  in case ValidateObjectInternal rt pObjUNSAFE True tr1 of
                       (Inl x, tr2) \<Rightarrow> (Inl (Thrown x), entry', tr2)
                     | (Inr u, tr2) \<Rightarrow> ProcessByrefValidationList_loop rt es n (i + 1) entry' tr2)
            else (Inl Undefined, entry, tr))
      else (Inr (), entry, tr))"
  by pat_completeness auto
termination
  by (relation "measure (\<lambda>(rt, es, n, i, entry, tr). n - i)") auto

declare ProcessByrefValidationList_loop.simps [simp del]

text \<open>
  Modelled from the spec: the macros \<open>EEPOLICY_HANDLE_FATAL_ERROR\<close> and
  \<open>EEPOLICY_HANDLE_FATAL_ERROR_WITH_MESSAGE\<close> are not in the file. The spec: "a
  non-returning \<open>terminate(errorCode, message)\<close>". The file says the same: both handlers
  end in \<open>EX_END_CATCH_UNREACHABLE\<close>. So the inner handler is reached only when formatting
  the message raised, and the reset of \<open>s_ByrefValidationIndex\<close> only when the loop raised
  nothing.
\<close>

definition ProcessByrefValidationList :: "runtime \<Rightarrow> verify_state \<Rightarrow> (error + unit) \<times> verify_state" where
  "ProcessByrefValidationList rt st =
     (case ProcessByrefValidationList_loop rt (s_ByrefValidationEntries st) (s_ByrefValidationIndex st) 0
             \<lparr>pByref = NULL, pMD = NULL\<rparr> (calls st) of
        (Inr u, entry, tr) \<Rightarrow> (Inr (), st\<lparr>s_ByrefValidationIndex := 0, calls := tr\<rparr>)
      | (Inl (Thrown x), entry, tr) \<Rightarrow>
          (case FormatValidationMessage rt (pMD entry) [] of
             Inr errorString \<Rightarrow>
               (Inl (Fatal COR_E_EXECUTIONENGINE (Some errorString)),
                st\<lparr>calls := tr @ [Ev_FatalError COR_E_EXECUTIONENGINE (Some errorString)]\<rparr>)
           | Inl y \<Rightarrow>
               (Inl (Fatal COR_E_EXECUTIONENGINE None),
                st\<lparr>calls := tr @ [Ev_FatalError COR_E_EXECUTIONENGINE None]\<rparr>))
      | (Inl other, entry, tr) \<Rightarrow> (Inl other, st\<lparr>calls := tr\<rparr>))"

subsection \<open>ValidateObject\<close>

text \<open>Here the message is formatted in the handler itself: a failure to format it unwinds.\<close>

definition ValidateObject ::
  "runtime \<Rightarrow> addr \<Rightarrow> addr \<Rightarrow> addr \<Rightarrow> gc_event list \<Rightarrow> (error + unit) \<times> gc_event list" where
  "ValidateObject rt pObjUNSAFE md pThisUNSAFE tr =
     (case ValidateObjectInternal rt pObjUNSAFE (\<not> IsConcurrentGCInProgress rt) tr of
        (Inr u, tr1) \<Rightarrow> (Inr (), tr1)
      | (Inl x, tr1) \<Rightarrow>
          (case FormatValidationMessage rt (ResolveInteropMethod rt pThisUNSAFE md) [] of
             Inl y \<Rightarrow> (Inl (Thrown y), tr1)
           | Inr errorString \<Rightarrow>
               (Inl (Fatal COR_E_EXECUTIONENGINE (Some errorString)),
                tr1 @ [Ev_FatalError COR_E_EXECUTIONENGINE (Some errorString)])))"

subsection \<open>ValidateByref\<close>

text \<open>\<open>SIZE_T\<close> is the pointer-sized unsigned integer; the target is a 64-bit one.\<close>

definition SIZE_T_MAX :: nat where
  "SIZE_T_MAX = 2 ^ 64 - 1"

text \<open>
  Modelled from the spec: \<open>ClrSafeInt<SIZE_T>::multiply\<close> and \<open>addition\<close> are not in the
  file. The spec: "signaling an overflow condition if the new capacity computation
  overflows". They give no result when the exact result does not fit \<open>SIZE_T\<close>.
\<close>

definition ClrSafeInt_multiply :: "nat \<Rightarrow> nat \<Rightarrow> nat option" where
  "ClrSafeInt_multiply a b = (if a * b \<le> SIZE_T_MAX then Some (a * b) else None)"

definition ClrSafeInt_addition :: "nat \<Rightarrow> nat \<Rightarrow> nat option" where
  "ClrSafeInt_addition a b = (if a + b \<le> SIZE_T_MAX then Some (a + b) else None)"

text \<open>
  Modelled from the spec: \<open>CQuickArray::ReSizeThrows\<close> and \<open>Size\<close> are not in the file.
  The spec: "Resizing the queue from capacity C to >C preserves all previously stored
  entries". The array is the list of its slots, \<open>Size\<close> its length; a resize keeps the
  slots that remain, adds slots nothing has written, or raises when it cannot allocate.
\<close>

definition Size :: "ByrefValidationEntry list \<Rightarrow> nat" where
  "Size es = length es"

definition ReSizeThrows ::
  "runtime \<Rightarrow> nat \<Rightarrow> ByrefValidationEntry list \<Rightarrow> hresult + ByrefValidationEntry list" where
  "ReSizeThrows rt newSize es =
     (if ReSize_fails rt newSize then Inl E_OUTOFMEMORY
      else Inr (take newSize es @ map (uninitialized rt) [length es ..< newSize]))"

text \<open>
  The part under \<open>s_ByrefValidationLock\<close>: grow when full, store, count. It gives the
  statics after it and \<open>NumOfEntries\<close>. The increment is that of a \<open>SIZE_T\<close>.
\<close>

definition ValidateByref_locked ::
  "runtime \<Rightarrow> ByrefValidationEntry \<Rightarrow> verify_state \<Rightarrow> hresult + (verify_state \<times> nat)" where
  "ValidateByref_locked rt entry st =
     bindE (if s_ByrefValidationIndex st \<ge> Size (s_ByrefValidationEntries st)
            then (case ClrSafeInt_multiply (s_ByrefValidationIndex st) 2 of
                    None \<Rightarrow> Inl COR_E_OVERFLOW
                  | Some m \<Rightarrow>
                      (case ClrSafeInt_addition m 1 of
                         None \<Rightarrow> Inl COR_E_OVERFLOW
                       | Some newSize \<Rightarrow> ReSizeThrows rt newSize (s_ByrefValidationEntries st)))
            else Inr (s_ByrefValidationEntries st))
       (\<lambda>es. let es' = es[s_ByrefValidationIndex st := entry];
                  NumOfEntries = (s_ByrefValidationIndex st + 1) mod (SIZE_T_MAX + 1)
              in Inr (st\<lparr>s_ByrefValidationEntries := es', s_ByrefValidationIndex := NumOfEntries\<rparr>,
                      NumOfEntries))"

definition ValidateByref ::
  "runtime \<Rightarrow> addr \<Rightarrow> addr \<Rightarrow> addr \<Rightarrow> verify_state \<Rightarrow> (error + unit) \<times> verify_state" where
  "ValidateByref rt byref md pThisUNSAFE st =
     (if \<not> IsHeapPointer rt byref then (Inr (), st)
      else (let entry = \<lparr>pByref = byref, pMD = ResolveInteropMethod rt pThisUNSAFE md\<rparr>
            in case ValidateByref_locked rt entry st of
                 Inl x \<Rightarrow> (Inl (Thrown x), st)
               | Inr (st1, NumOfEntries) \<Rightarrow>
                   (if NumOfEntries > BYREF_VALIDATION_LIST_MAX_SIZE rt
                    then (Inr (), st1\<lparr>calls := calls st1 @ [Ev_GarbageCollect 0]\<rparr>)
                    else (Inr (), st1))))"

section \<open>GetCOMIPFromRCW (FEATURE_COMINTEROP)\<close>

record InterfaceEntry =
  m_pMT :: addr
  m_pUnknown :: addr

text \<open>
  The wrapper: its cache \<open>m_aInterfaceEntries[INTERFACE_ENTRY_CACHE_SIZE]\<close> (a fixed-size
  array, read at indices below that size only), its context cookie and its
  free-threaded flag.
\<close>

record RCW =
  m_aInterfaceEntries :: "nat \<Rightarrow> InterfaceEntry"
  GetWrapperCtxCookie :: addr
  IsFreeThreaded :: bool

record CLRToCOMCallInfo =
  m_pInterfaceMT :: addr
  m_cachedComSlot :: nat

record SOleTlsData =
  pCurrentCtx :: addr

datatype com_event =
    Ev_Write_pfNeedsRelease bool
  | Ev_CacheProbe nat
  | Ev_GetComIPFromRCWThrowing addr addr
  | Ev_ClearFP

text \<open>
  What the helper reads and does not define: the cache size, the thread's OLE data
  (\<open>ReservedForOle\<close>, null before \<open>SetupOleContext\<close> has run), the call info of a method,
  the slots of an interface pointer's dispatch table, and the interface query of the
  foreign object model.
\<close>

record com_runtime =
  INTERFACE_ENTRY_CACHE_SIZE :: nat
  ReservedForOle :: "SOleTlsData option"
  SetupOleContext :: SOleTlsData
  FromMethodDesc :: "addr \<Rightarrow> CLRToCOMCallInfo"
  vtable_slot :: "addr \<Rightarrow> nat \<Rightarrow> addr"
  resolveInterface :: "addr \<Rightarrow> addr \<Rightarrow> hresult + addr"

text \<open>
  The memory the helper works on: the wrapper of each object (what
  \<open>PassiveGetSyncBlock()->GetInteropInfoNoCreate()->GetRawRCW()\<close> gives, null for an object
  that has none), the caller's two result cells \<open>*pfNeedsRelease\<close> and \<open>*ppTarget\<close>, and
  the log of what was done.
\<close>

record com_state =
  GetRawRCW :: "addr \<Rightarrow> RCW option"
  pfNeedsRelease :: bool
  ppTarget :: addr
  com_calls :: "com_event list"

definition GetOrCreateOleTlsData :: "com_runtime \<Rightarrow> SOleTlsData" where
  "GetOrCreateOleTlsData crt =
     (case ReservedForOle crt of None \<Rightarrow> SetupOleContext crt | Some pOleTlsData \<Rightarrow> pOleTlsData)"

text \<open>The scan \<open>for (int i = 0; i < INTERFACE_ENTRY_CACHE_SIZE; i++)\<close>, and the \<open>return NULL\<close> after it.\<close>

function GetIUnknownFromRCWCache_loop ::
  "com_runtime \<Rightarrow> RCW \<Rightarrow> addr \<Rightarrow> nat \<Rightarrow> com_event list \<Rightarrow> addr \<times> com_event list" where
  "GetIUnknownFromRCWCache_loop crt pRCW pItfMT i tr =
     (if i < INTERFACE_ENTRY_CACHE_SIZE crt
      then (let tr1 = tr @ [Ev_CacheProbe i]
            in if m_pMT (m_aInterfaceEntries pRCW i) = pItfMT
               then (m_pUnknown (m_aInterfaceEntries pRCW i), tr1)
               else GetIUnknownFromRCWCache_loop crt pRCW pItfMT (i + 1) tr1)
      else (NULL, tr))"
  by pat_completeness auto
termination
  by (relation "measure (\<lambda>(crt, pRCW, pItfMT, i, tr). INTERFACE_ENTRY_CACHE_SIZE crt - i)") auto

declare GetIUnknownFromRCWCache_loop.simps [simp del]

definition GetCOMIPFromRCW_GetIUnknownFromRCWCache ::
  "com_runtime \<Rightarrow> RCW \<Rightarrow> addr \<Rightarrow> com_event list \<Rightarrow> addr \<times> com_event list" where
  "GetCOMIPFromRCW_GetIUnknownFromRCWCache crt pRCW pItfMT tr =
     (let pOleTlsData = GetOrCreateOleTlsData crt
      in if pCurrentCtx pOleTlsData = GetWrapperCtxCookie pRCW \<or> IsFreeThreaded pRCW
         then GetIUnknownFromRCWCache_loop crt pRCW pItfMT 0 tr
         else (NULL, tr))"

definition GetCOMIPFromRCW_GetTarget :: "com_runtime \<Rightarrow> addr \<Rightarrow> CLRToCOMCallInfo \<Rightarrow> addr" where
  "GetCOMIPFromRCW_GetTarget crt pUnk pComInfo = vtable_slot crt pUnk (m_cachedComSlot pComInfo)"

text \<open>
  Modelled from the spec: \<open>ComObject::GetComIPFromRCWThrowing\<close> is not in the file. The
  spec: "performs a full interface query against the foreign object, refreshes the
  wrapper's cache", and the query "fails with a catchable error". The spec does not say
  which slot is refreshed; here it is the first that holds the interface already, else the
  first empty one, else slot 0. An object without a wrapper has no cache to refresh.
\<close>

definition refresh_slot :: "com_runtime \<Rightarrow> RCW \<Rightarrow> addr \<Rightarrow> nat" where
  "refresh_slot crt pRCW pItfMT =
     (case find (\<lambda>i. m_pMT (m_aInterfaceEntries pRCW i) = pItfMT) [0 ..< INTERFACE_ENTRY_CACHE_SIZE crt] of
        Some i \<Rightarrow> i
      | None \<Rightarrow>
          (case find (\<lambda>i. m_pMT (m_aInterfaceEntries pRCW i) = NULL) [0 ..< INTERFACE_ENTRY_CACHE_SIZE crt] of
             Some i \<Rightarrow> i
           | None \<Rightarrow> 0))"

definition refresh_cache :: "com_runtime \<Rightarrow> RCW \<Rightarrow> addr \<Rightarrow> addr \<Rightarrow> RCW" where
  "refresh_cache crt pRCW pItfMT pUnk =
     (if INTERFACE_ENTRY_CACHE_SIZE crt = 0 then pRCW
      else pRCW\<lparr>m_aInterfaceEntries :=
             (m_aInterfaceEntries pRCW)(refresh_slot crt pRCW pItfMT := \<lparr>m_pMT = pItfMT, m_pUnknown = pUnk\<rparr>)\<rparr>)"

definition GetComIPFromRCWThrowing ::
  "com_runtime \<Rightarrow> addr \<Rightarrow> addr \<Rightarrow> com_state \<Rightarrow> (hresult + addr) \<times> com_state" where
  "GetComIPFromRCWThrowing crt pSrc pItfMT st =
     (let st1 = st\<lparr>com_calls := com_calls st @ [Ev_GetComIPFromRCWThrowing pSrc pItfMT]\<rparr>
      in case resolveInterface crt pSrc pItfMT of
           Inl x \<Rightarrow> (Inl x, st1)
         | Inr pUnk \<Rightarrow>
             (Inr pUnk,
              (case GetRawRCW st1 pSrc of
                 None \<Rightarrow> st1
               | Some pRCW \<Rightarrow>
                   st1\<lparr>GetRawRCW := (GetRawRCW st1)(pSrc \<mapsto> refresh_cache crt pRCW pItfMT pUnk)\<rparr>)))"

text \<open>\<open>GetCOMIPFromRCW_ClearFP\<close> clears the floating-point status on x86 and is empty elsewhere.\<close>

definition GetCOMIPFromRCW_ClearFP :: "com_state \<Rightarrow> com_state" where
  "GetCOMIPFromRCW_ClearFP st = st\<lparr>com_calls := com_calls st @ [Ev_ClearFP]\<rparr>"

text \<open>The helper with its frame. Its \<open>_ASSERTE(*ppTarget != NULL)\<close> is a debug check and is left out.\<close>

definition GetCOMIPFromRCWHelper ::
  "com_runtime \<Rightarrow> addr \<Rightarrow> addr \<Rightarrow> com_state \<Rightarrow> (error + addr) \<times> com_state" where
  "GetCOMIPFromRCWHelper crt pSrc md st =
     (let pComInfo = FromMethodDesc crt md
      in case GetComIPFromRCWThrowing crt pSrc (m_pInterfaceMT pComInfo) st of
           (Inl x, st1) \<Rightarrow> (Inl (Thrown x), st1)
         | (Inr pRetUnk, st1) \<Rightarrow>
             (Inr pRetUnk,
              GetCOMIPFromRCW_ClearFP (st1\<lparr>ppTarget := GetCOMIPFromRCW_GetTarget crt pRetUnk pComInfo\<rparr>)))"

text \<open>The end of \<open>GetCOMIPFromRCW\<close>: the flag is set, then the helper with its frame runs.\<close>

definition GetCOMIPFromRCW_slow ::
  "com_runtime \<Rightarrow> addr \<Rightarrow> addr \<Rightarrow> com_state \<Rightarrow> (error + addr) \<times> com_state" where
  "GetCOMIPFromRCW_slow crt pSrc md st =
     GetCOMIPFromRCWHelper crt pSrc md
       (st\<lparr>pfNeedsRelease := True, com_calls := com_calls st @ [Ev_Write_pfNeedsRelease True]\<rparr>)"

definition GetCOMIPFromRCW ::
  "com_runtime \<Rightarrow> addr \<Rightarrow> addr \<Rightarrow> com_state \<Rightarrow> (error + addr) \<times> com_state" where
  "GetCOMIPFromRCW crt pSrc md st =
     (let st0 = st\<lparr>pfNeedsRelease := False, com_calls := com_calls st @ [Ev_Write_pfNeedsRelease False]\<rparr>;
          pComInfo = FromMethodDesc crt md
      in case GetRawRCW st0 pSrc of
           None \<Rightarrow> GetCOMIPFromRCW_slow crt pSrc md st0
         | Some pRCW \<Rightarrow>
             (case GetCOMIPFromRCW_GetIUnknownFromRCWCache crt pRCW (m_pInterfaceMT pComInfo) (com_calls st0) of
                (pUnk, tr1) \<Rightarrow>
                  (if pUnk \<noteq> NULL
                   then (let st2 = st0\<lparr>ppTarget := GetCOMIPFromRCW_GetTarget crt pUnk pComInfo, com_calls := tr1\<rparr>
                         in if ppTarget st2 \<noteq> NULL
                            then (Inr pUnk, GetCOMIPFromRCW_ClearFP st2)
                            else GetCOMIPFromRCW_slow crt pSrc md st2)
                   else GetCOMIPFromRCW_slow crt pSrc md (st0\<lparr>com_calls := tr1\<rparr>))))"

section \<open>Reading the logs\<close>

text \<open>What a log says was done, one list per kind of call, in the order of the calls.\<close>

definition resolved_pointers :: "gc_event list \<Rightarrow> addr list" where
  "resolved_pointers tr = concat (map (\<lambda>ev. case ev of Ev_GetContainingObject p \<Rightarrow> [p] | _ \<Rightarrow> []) tr)"

definition validated_objects :: "gc_event list \<Rightarrow> addr list" where
  "validated_objects tr =
     concat (map (\<lambda>ev. case ev of Ev_Validate obj deep nextHeader syncBlock \<Rightarrow> if syncBlock then [obj] else []
                          | _ \<Rightarrow> []) tr)"

definition validated_neighbours :: "gc_event list \<Rightarrow> addr list" where
  "validated_neighbours tr =
     concat (map (\<lambda>ev. case ev of Ev_Validate obj deep nextHeader syncBlock \<Rightarrow> if syncBlock then [] else [obj]
                          | _ \<Rightarrow> []) tr)"

definition next_lookups :: "gc_event list \<Rightarrow> addr list" where
  "next_lookups tr = concat (map (\<lambda>ev. case ev of Ev_NextObj obj \<Rightarrow> [obj] | _ \<Rightarrow> []) tr)"

definition method_table_loads :: "gc_event list \<Rightarrow> addr list" where
  "method_table_loads tr = concat (map (\<lambda>ev. case ev of Ev_LoadMethodTable obj \<Rightarrow> [obj] | _ \<Rightarrow> []) tr)"

definition collections :: "gc_event list \<Rightarrow> nat list" where
  "collections tr = concat (map (\<lambda>ev. case ev of Ev_GarbageCollect gen \<Rightarrow> [gen] | _ \<Rightarrow> []) tr)"

definition fatal_errors :: "gc_event list \<Rightarrow> (hresult \<times> string option) list" where
  "fatal_errors tr = concat (map (\<lambda>ev. case ev of Ev_FatalError hr msg \<Rightarrow> [(hr, msg)] | _ \<Rightarrow> []) tr)"

text \<open>
  When the validation of an object raises: the object itself does not pass, or its
  neighbour is asked for, exists, shows a method table that is neither null nor the
  free-object one, and does not pass.
\<close>

definition object_fails :: "runtime \<Rightarrow> addr \<Rightarrow> bool \<Rightarrow> bool" where
  "object_fails rt obj withNext =
     ((obj \<noteq> NULL \<and> \<not> ObjectValidate rt obj True False True) \<or>
      (withNext \<and> NextObj rt obj \<noteq> NULL \<and>
       GetMethodTablePtr rt (NextObj rt obj) \<noteq> NULL \<and>
       GetMethodTablePtr rt (NextObj rt obj) \<noteq> g_pFreeObjectMethodTable rt \<and>
       \<not> ObjectValidate rt (NextObj rt obj) True False False))"

definition entry_fails :: "runtime \<Rightarrow> ByrefValidationEntry \<Rightarrow> bool" where
  "entry_fails rt e = object_fails rt (GetContainingObject rt (pByref e)) True"

text \<open>The entries a drain gets to: all of them, or those up to the first whose validation raises.\<close>

fun visited :: "runtime \<Rightarrow> ByrefValidationEntry list \<Rightarrow> ByrefValidationEntry list" where
  "visited rt [] = []"
| "visited rt (e # es) = (if entry_fails rt e then [e] else e # visited rt es)"

text \<open>
  The message of a failure at call site \<open>md\<close>, for a message that could be formatted (the
  class name is then known; no name stands for one that is not).
\<close>

definition culprit :: "runtime \<Rightarrow> addr \<Rightarrow> string" where
  "culprit rt md =
     (if md = NULL then ''CALLI.''
      else ''method '' @ [CHR 0x27] @
           (case GetFullyQualifiedNameForClass rt md of Inl x \<Rightarrow> [] | Inr ssClassName \<Rightarrow> ssClassName) @
           [NAMESPACE_SEPARATOR_CHAR rt] @ GetName rt md @ [CHR 0x27, CHR ''.''])"

definition corruption_message :: "runtime \<Rightarrow> addr \<Rightarrow> string" where
  "corruption_message rt md =
     ''Detected managed heap corruption, likely culprit is interop call through '' @ culprit rt md"

text \<open>
  When formatting the message for call site \<open>md\<close> into an empty string raises: one of the
  appends it makes cannot grow the string as it then stands, or the class name of a
  method cannot be had.
\<close>

definition format_raises :: "runtime \<Rightarrow> addr \<Rightarrow> bool" where
  "format_raises rt md =
     (SString_Append_fails rt []
        ''Detected managed heap corruption, likely culprit is interop call through '' \<or>
      (if md = NULL
       then SString_Append_fails rt
              ''Detected managed heap corruption, likely culprit is interop call through '' ''CALLI.''
       else SString_Append_fails rt
              ''Detected managed heap corruption, likely culprit is interop call through ''
              (''method '' @ [CHR 0x27]) \<or>
            (case GetFullyQualifiedNameForClass rt md of
               Inl x \<Rightarrow> True
             | Inr ssClassName \<Rightarrow>
                 SString_Append_fails rt
                   (''Detected managed heap corruption, likely culprit is interop call through method '' @
                    [CHR 0x27]) ssClassName \<or>
                 SString_Append_fails rt
                   (''Detected managed heap corruption, likely culprit is interop call through method '' @
                    [CHR 0x27] @ ssClassName) [NAMESPACE_SEPARATOR_CHAR rt] \<or>
                 SString_Append_fails rt
                   (''Detected managed heap corruption, likely culprit is interop call through method '' @
                    [CHR 0x27] @ ssClassName @ [NAMESPACE_SEPARATOR_CHAR rt]) (GetName rt md) \<or>
                 SString_Append_fails rt
                   (''Detected managed heap corruption, likely culprit is interop call through method '' @
                    [CHR 0x27] @ ssClassName @ [NAMESPACE_SEPARATOR_CHAR rt] @ GetName rt md)
                   [CHR 0x27, CHR ''.''])))"

text \<open>The entries a drain has to visit: the first \<open>s_ByrefValidationIndex\<close> slots.\<close>

definition live_entries :: "verify_state \<Rightarrow> ByrefValidationEntry list" where
  "live_entries st = take (s_ByrefValidationIndex st) (s_ByrefValidationEntries st)"

text \<open>What one validation adds to a log, and what the visit of a list of entries adds.\<close>

definition ValidateObjectInternal_events :: "runtime \<Rightarrow> addr \<Rightarrow> bool \<Rightarrow> gc_event list" where
  "ValidateObjectInternal_events rt obj withNext = snd (ValidateObjectInternal rt obj withNext [])"

definition entries_events :: "runtime \<Rightarrow> ByrefValidationEntry list \<Rightarrow> gc_event list" where
  "entries_events rt es =
     concat (map (\<lambda>e. Ev_GetContainingObject (pByref e) #
                       ValidateObjectInternal_events rt (GetContainingObject rt (pByref e)) True) es)"

text \<open>The loop of the drain again, by recursion on the entries still to visit.\<close>

fun validate_entries ::
  "runtime \<Rightarrow> ByrefValidationEntry list \<Rightarrow> ByrefValidationEntry \<Rightarrow> gc_event list
     \<Rightarrow> (error + unit) \<times> ByrefValidationEntry \<times> gc_event list" where
  "validate_entries rt [] entry tr = (Inr (), entry, tr)"
| "validate_entries rt (e # es) entry tr =
     (case ValidateObjectInternal rt (GetContainingObject rt (pByref e)) True
             (tr @ [Ev_GetContainingObject (pByref e)]) of
        (Inl x, tr2) \<Rightarrow> (Inl (Thrown x), e, tr2)
      | (Inr u, tr2) \<Rightarrow> validate_entries rt es e tr2)"

text \<open>A heap of ten objects of 100 bytes from address 1000; object 1300 is corrupt, 1500 is free.\<close>

definition example_runtime :: runtime where
  "example_runtime =
     \<lparr>BYREF_VALIDATION_LIST_MAX_SIZE = 2,
      g_pFreeObjectMethodTable = 99,
      NAMESPACE_SEPARATOR_CHAR = CHR ''.'',
      IsHeapPointer = (\<lambda>p. 1000 \<le> p \<and> p < 2000),
      GetContainingObject = (\<lambda>p. if 1000 \<le> p \<and> p < 2000 then (p div 100) * 100 else NULL),
      NextObj = (\<lambda>obj. if 1000 \<le> obj \<and> obj < 1900 then obj + 100 else NULL),
      IsConcurrentGCInProgress = False,
      GetMethodTablePtr = (\<lambda>obj. if obj = 1500 then 99 else 7),
      ObjectValidate = (\<lambda>obj deep nextHeader syncBlock. obj \<noteq> 1300),
      GetInvokeMethod = (\<lambda>obj. 42),
      GetFullyQualifiedNameForClass = (\<lambda>md. Inr ''N.C''),
      GetName = (\<lambda>md. ''M''),
      SString_Append_fails = (\<lambda>s t. False),
      ReSize_fails = (\<lambda>n. False),
      uninitialized = (\<lambda>i. \<lparr>pByref = NULL, pMD = NULL\<rparr>)\<rparr>"

text \<open>The same heap in a process that cannot grow a string any more.\<close>

definition no_memory_runtime :: runtime where
  "no_memory_runtime = example_runtime\<lparr>SString_Append_fails := (\<lambda>s t. True)\<rparr>"

text \<open>The same heap in a process where the class name of a method cannot be had.\<close>

definition no_name_runtime :: runtime where
  "no_name_runtime = example_runtime\<lparr>GetFullyQualifiedNameForClass := (\<lambda>md. Inl E_FAIL)\<rparr>"

text \<open>
  Two lists for that heap. In the first the two live entries point into sound objects (a
  third slot is not live). In the second the first entry points into the corrupt object.
\<close>

definition clean_queue :: verify_state where
  "clean_queue =
     \<lparr>s_ByrefValidationEntries =
        [\<lparr>pByref = 1010, pMD = 5\<rparr>, \<lparr>pByref = 1420, pMD = NULL\<rparr>, \<lparr>pByref = 1777, pMD = 9\<rparr>],
      s_ByrefValidationIndex = 2, calls = []\<rparr>"

definition corrupt_queue :: verify_state where
  "corrupt_queue =
     \<lparr>s_ByrefValidationEntries = [\<lparr>pByref = 1310, pMD = 5\<rparr>, \<lparr>pByref = 1010, pMD = 6\<rparr>],
      s_ByrefValidationIndex = 2, calls = []\<rparr>"

text \<open>A list whose one entry points into the corrupt object and has no method (a \<open>CALLI\<close>).\<close>

definition calli_queue :: verify_state where
  "calli_queue =
     \<lparr>s_ByrefValidationEntries = [\<lparr>pByref = 1310, pMD = NULL\<rparr>],
      s_ByrefValidationIndex = 1, calls = []\<rparr>"

text \<open>A list that is full, and one so long that doubling its size overflows \<open>SIZE_T\<close>.\<close>

definition full_queue :: verify_state where
  "full_queue =
     \<lparr>s_ByrefValidationEntries = [\<lparr>pByref = 1010, pMD = 5\<rparr>],
      s_ByrefValidationIndex = 1, calls = []\<rparr>"

definition huge_queue :: verify_state where
  "huge_queue =
     \<lparr>s_ByrefValidationEntries = replicate (2 ^ 63) \<lparr>pByref = 1010, pMD = 5\<rparr>,
      s_ByrefValidationIndex = 2 ^ 63, calls = []\<rparr>"

subsection \<open>The log of the COM helper\<close>

definition flag_writes :: "com_event list \<Rightarrow> bool list" where
  "flag_writes tr = concat (map (\<lambda>ev. case ev of Ev_Write_pfNeedsRelease b \<Rightarrow> [b] | _ \<Rightarrow> []) tr)"

definition cache_probes :: "com_event list \<Rightarrow> nat list" where
  "cache_probes tr = concat (map (\<lambda>ev. case ev of Ev_CacheProbe i \<Rightarrow> [i] | _ \<Rightarrow> []) tr)"

definition resolver_calls :: "com_event list \<Rightarrow> (addr \<times> addr) list" where
  "resolver_calls tr =
     concat (map (\<lambda>ev. case ev of Ev_GetComIPFromRCWThrowing pSrc pItfMT \<Rightarrow> [(pSrc, pItfMT)] | _ \<Rightarrow> []) tr)"

text \<open>
  The cache as a table: the context test of the fast path, the pointer of the first slot
  that holds an interface, and the slots a scan for it reads.
\<close>

definition context_accepted :: "com_runtime \<Rightarrow> RCW \<Rightarrow> bool" where
  "context_accepted crt pRCW =
     (IsFreeThreaded pRCW \<or> pCurrentCtx (GetOrCreateOleTlsData crt) = GetWrapperCtxCookie pRCW)"

definition cache_lookup :: "com_runtime \<Rightarrow> RCW \<Rightarrow> addr \<Rightarrow> addr" where
  "cache_lookup crt pRCW pItfMT =
     (case find (\<lambda>i. m_pMT (m_aInterfaceEntries pRCW i) = pItfMT) [0 ..< INTERFACE_ENTRY_CACHE_SIZE crt] of
        None \<Rightarrow> NULL
      | Some i \<Rightarrow> m_pUnknown (m_aInterfaceEntries pRCW i))"

definition probed_slots :: "com_runtime \<Rightarrow> RCW \<Rightarrow> addr \<Rightarrow> nat list" where
  "probed_slots crt pRCW pItfMT =
     (case find (\<lambda>i. m_pMT (m_aInterfaceEntries pRCW i) = pItfMT) [0 ..< INTERFACE_ENTRY_CACHE_SIZE crt] of
        None \<Rightarrow> [0 ..< INTERFACE_ENTRY_CACHE_SIZE crt]
      | Some i \<Rightarrow> [0 ..< Suc i])"

text \<open>The cache slots a call reads: none without a wrapper or outside an accepted context.\<close>

definition scanned_slots :: "com_runtime \<Rightarrow> com_state \<Rightarrow> addr \<Rightarrow> addr \<Rightarrow> nat list" where
  "scanned_slots crt st pSrc md =
     (case GetRawRCW st pSrc of
        None \<Rightarrow> []
      | Some pRCW \<Rightarrow>
          if context_accepted crt pRCW
          then probed_slots crt pRCW (m_pInterfaceMT (FromMethodDesc crt md)) else [])"

text \<open>
  A hit of the fast path: the object has a wrapper, the context is accepted, the cache
  holds a pointer for the interface of the call, and the slot of its dispatch table that
  the call uses is not null.
\<close>

definition fast_path_hit :: "com_runtime \<Rightarrow> com_state \<Rightarrow> addr \<Rightarrow> addr \<Rightarrow> bool" where
  "fast_path_hit crt st pSrc md =
     (case GetRawRCW st pSrc of
        None \<Rightarrow> False
      | Some pRCW \<Rightarrow>
          context_accepted crt pRCW \<and>
          cache_lookup crt pRCW (m_pInterfaceMT (FromMethodDesc crt md)) \<noteq> NULL \<and>
          GetCOMIPFromRCW_GetTarget crt (cache_lookup crt pRCW (m_pInterfaceMT (FromMethodDesc crt md)))
            (FromMethodDesc crt md) \<noteq> NULL)"

text \<open>
  A thread in context 77 and an object 2000 whose wrapper, bound to that context, caches
  pointer 801 for interface 301. Method \<open>md\<close> calls slot 3 of interface \<open>300 + md\<close>; the
  query for interface 302 fails.
\<close>

definition example_com_runtime :: com_runtime where
  "example_com_runtime =
     \<lparr>INTERFACE_ENTRY_CACHE_SIZE = 4,
      ReservedForOle = Some \<lparr>pCurrentCtx = 77\<rparr>,
      SetupOleContext = \<lparr>pCurrentCtx = 77\<rparr>,
      FromMethodDesc = (\<lambda>md. \<lparr>m_pInterfaceMT = 300 + md, m_cachedComSlot = 3\<rparr>),
      vtable_slot = (\<lambda>pUnk slot. pUnk * 10 + slot),
      resolveInterface = (\<lambda>pSrc pItfMT. if pItfMT = 302 then Inl E_NOINTERFACE else Inr (pItfMT + 500))\<rparr>"

definition example_wrapper :: RCW where
  "example_wrapper =
     \<lparr>m_aInterfaceEntries =
        (\<lambda>i. if i = 0 then \<lparr>m_pMT = 301, m_pUnknown = 801\<rparr> else \<lparr>m_pMT = NULL, m_pUnknown = NULL\<rparr>),
      GetWrapperCtxCookie = 77,
      IsFreeThreaded = False\<rparr>"

definition example_com_state :: com_state where
  "example_com_state =
     \<lparr>GetRawRCW = (\<lambda>pSrc. if pSrc = 2000 then Some example_wrapper else None),
      pfNeedsRelease = True,
      ppTarget = NULL,
      com_calls = []\<rparr>"

text \<open>The same wrapper made free-threaded and bound to another context.\<close>

definition free_threaded_wrapper :: RCW where
  "free_threaded_wrapper = example_wrapper\<lparr>GetWrapperCtxCookie := 55, IsFreeThreaded := True\<rparr>"

definition foreign_wrapper :: RCW where
  "foreign_wrapper = example_wrapper\<lparr>GetWrapperCtxCookie := 55\<rparr>"

section \<open>Properties\<close>
subsection \<open>Projections of a log\<close>

lemma resolved_pointers_append [simp]:
  "resolved_pointers (xs @ ys) = resolved_pointers xs @ resolved_pointers ys"
  by (simp add: resolved_pointers_def)

lemma validated_objects_append [simp]:
  "validated_objects (xs @ ys) = validated_objects xs @ validated_objects ys"
  by (simp add: validated_objects_def)

lemma validated_neighbours_append [simp]:
  "validated_neighbours (xs @ ys) = validated_neighbours xs @ validated_neighbours ys"
  by (simp add: validated_neighbours_def)

lemma next_lookups_append [simp]:
  "next_lookups (xs @ ys) = next_lookups xs @ next_lookups ys"
  by (simp add: next_lookups_def)

lemma method_table_loads_append [simp]:
  "method_table_loads (xs @ ys) = method_table_loads xs @ method_table_loads ys"
  by (simp add: method_table_loads_def)

lemma collections_append [simp]:
  "collections (xs @ ys) = collections xs @ collections ys"
  by (simp add: collections_def)

lemma fatal_errors_append [simp]:
  "fatal_errors (xs @ ys) = fatal_errors xs @ fatal_errors ys"
  by (simp add: fatal_errors_def)

lemma resolved_pointers_simps [simp]:
  "resolved_pointers [] = []"
  "resolved_pointers (ev # tr) = (case ev of Ev_GetContainingObject p \<Rightarrow> [p] | _ \<Rightarrow> []) @ resolved_pointers tr"
  by (simp_all add: resolved_pointers_def)

lemma validated_objects_simps [simp]:
  "validated_objects [] = []"
  "validated_objects (ev # tr) =
     (case ev of Ev_Validate obj deep nextHeader syncBlock \<Rightarrow> if syncBlock then [obj] else [] | _ \<Rightarrow> []) @
     validated_objects tr"
  by (simp_all add: validated_objects_def)

lemma validated_neighbours_simps [simp]:
  "validated_neighbours [] = []"
  "validated_neighbours (ev # tr) =
     (case ev of Ev_Validate obj deep nextHeader syncBlock \<Rightarrow> if syncBlock then [] else [obj] | _ \<Rightarrow> []) @
     validated_neighbours tr"
  by (simp_all add: validated_neighbours_def)

lemma next_lookups_simps [simp]:
  "next_lookups [] = []"
  "next_lookups (ev # tr) = (case ev of Ev_NextObj obj \<Rightarrow> [obj] | _ \<Rightarrow> []) @ next_lookups tr"
  by (simp_all add: next_lookups_def)

lemma method_table_loads_simps [simp]:
  "method_table_loads [] = []"
  "method_table_loads (ev # tr) = (case ev of Ev_LoadMethodTable obj \<Rightarrow> [obj] | _ \<Rightarrow> []) @ method_table_loads tr"
  by (simp_all add: method_table_loads_def)

lemma collections_simps [simp]:
  "collections [] = []"
  "collections (ev # tr) = (case ev of Ev_GarbageCollect gen \<Rightarrow> [gen] | _ \<Rightarrow> []) @ collections tr"
  by (simp_all add: collections_def)

lemma fatal_errors_simps [simp]:
  "fatal_errors [] = []"
  "fatal_errors (ev # tr) = (case ev of Ev_FatalError hr msg \<Rightarrow> [(hr, msg)] | _ \<Rightarrow> []) @ fatal_errors tr"
  by (simp_all add: fatal_errors_def)

subsection \<open>The drain\<close>

lemma ValidateObjectInternal_log:
  "snd (ValidateObjectInternal rt obj withNext tr) = tr @ ValidateObjectInternal_events rt obj withNext"
  by (simp add: ValidateObjectInternal_events_def ValidateObjectInternal_def Let_def)

lemma ValidateObjectInternal_fst:
  "fst (ValidateObjectInternal rt obj withNext tr) = (if object_fails rt obj withNext then Inl E_FAIL else Inr ())"
  by (auto simp: ValidateObjectInternal_def object_fails_def Let_def)

lemma loop_eq:
  "i \<le> n \<Longrightarrow> n \<le> length es \<Longrightarrow>
   ProcessByrefValidationList_loop rt es n i entry tr = validate_entries rt (drop i (take n es)) entry tr"
proof (induction rt es n i entry tr rule: ProcessByrefValidationList_loop.induct)
  case (1 rt es n i entry tr)
  show ?case
  proof (cases "i < n")
    case False
    with 1(2) have "i = n" by simp
    with 1(3) show ?thesis
      by (subst ProcessByrefValidationList_loop.simps) simp
  next
    case True
    with 1(3) have len: "i < length es" by simp
    from True len have d: "drop i (take n es) = es ! i # drop (Suc i) (take n es)"
      by (metis Cons_nth_drop_Suc length_take min.absorb2 nth_take 1(3))
    show ?thesis
      apply (subst ProcessByrefValidationList_loop.simps)
      using True len 1(1)[OF True len refl refl refl] 1(3)
      apply (simp add: d Let_def split: prod.splits sum.splits)
      done
  qed
qed

lemma ValidateObjectInternal_split:
  "ValidateObjectInternal rt obj withNext tr =
     (if object_fails rt obj withNext then Inl E_FAIL else Inr (), tr @ ValidateObjectInternal_events rt obj withNext)"
  by (metis ValidateObjectInternal_fst ValidateObjectInternal_log prod.collapse)

lemma validate_entries_fst:
  "fst (validate_entries rt es entry tr) =
     (if \<exists>e \<in> set es. entry_fails rt e then Inl (Thrown E_FAIL) else Inr ())"
  by (induction es arbitrary: entry tr) (simp_all add: ValidateObjectInternal_split entry_fails_def)

lemma validate_entries_entry:
  "find (entry_fails rt) es = Some e \<Longrightarrow> fst (snd (validate_entries rt es entry tr)) = e"
  by (induction es arbitrary: entry tr)
     (auto simp: ValidateObjectInternal_split entry_fails_def split: if_splits)

lemma validate_entries_log:
  "snd (snd (validate_entries rt es entry tr)) = tr @ entries_events rt (visited rt es)"
  by (induction es arbitrary: entry tr)
     (simp_all add: ValidateObjectInternal_split entry_fails_def entries_events_def)

lemma events_resolved [simp]: "resolved_pointers (ValidateObjectInternal_events rt obj withNext) = []"
  by (simp add: ValidateObjectInternal_events_def ValidateObjectInternal_def Let_def)

lemma events_fatal [simp]: "fatal_errors (ValidateObjectInternal_events rt obj withNext) = []"
  by (simp add: ValidateObjectInternal_events_def ValidateObjectInternal_def Let_def)

lemma events_validated [simp]:
  "validated_objects (ValidateObjectInternal_events rt obj withNext) = (if obj \<noteq> NULL then [obj] else [])"
  by (simp add: ValidateObjectInternal_events_def ValidateObjectInternal_def Let_def)

lemma entries_events_resolved: "resolved_pointers (entries_events rt es) = map pByref es"
  by (induction es) (simp_all add: entries_events_def)

lemma entries_events_validated:
  "validated_objects (entries_events rt es) =
     filter (\<lambda>obj. obj \<noteq> NULL) (map (\<lambda>e. GetContainingObject rt (pByref e)) es)"
  by (induction es) (simp_all add: entries_events_def)

lemma entries_events_fatal: "fatal_errors (entries_events rt es) = []"
  by (induction es) (simp_all add: entries_events_def)

text \<open>The visited entries are a prefix of the live ones: those that pass, then the first that does not.\<close>

lemma visited_takeWhile:
  "visited rt es =
     takeWhile (\<lambda>e. \<not> entry_fails rt e) es @ take 1 (dropWhile (\<lambda>e. \<not> entry_fails rt e) es)"
  by (induction es) simp_all

lemma visited_all: "\<forall>e \<in> set es. \<not> entry_fails rt e \<Longrightarrow> visited rt es = es"
  by (induction es) simp_all

lemma drain_loop:
  "s_ByrefValidationIndex st \<le> length (s_ByrefValidationEntries st) \<Longrightarrow>
   ProcessByrefValidationList_loop rt (s_ByrefValidationEntries st) (s_ByrefValidationIndex st) 0 entry tr =
     validate_entries rt (live_entries st) entry tr"
  using loop_eq [of 0 "s_ByrefValidationIndex st" "s_ByrefValidationEntries st" rt entry tr]
  by (simp add: live_entries_def)

lemma FormatValidationMessage_ok:
  "FormatValidationMessage rt md ss = Inr s \<Longrightarrow> s = ss @ corruption_message rt md"
  by (auto simp: FormatValidationMessage_def bindE_def SString_Append_def corruption_message_def
                 culprit_def split: if_splits sum.splits)

text \<open>The formatter raises exactly when \<open>format_raises\<close> says so, and else gives the whole message.\<close>

lemma FormatValidationMessage_raises:
  "format_raises rt md \<Longrightarrow> \<exists>x. FormatValidationMessage rt md [] = Inl x"
  by (auto simp: FormatValidationMessage_def bindE_def SString_Append_def format_raises_def
           split: if_splits sum.splits)

lemma FormatValidationMessage_message:
  "\<not> format_raises rt md \<Longrightarrow> FormatValidationMessage rt md [] = Inr (corruption_message rt md)"
  by (auto simp: FormatValidationMessage_def bindE_def SString_Append_def format_raises_def
                 corruption_message_def culprit_def
           split: if_splits sum.splits)

lemma drain_message:
  "(case FormatValidationMessage rt md [] of Inl x \<Rightarrow> None | Inr s \<Rightarrow> Some (corruption_message rt md)) =
     (if format_raises rt md then None else Some (corruption_message rt md))"
proof (cases "format_raises rt md")
  case True
  then obtain x where "FormatValidationMessage rt md [] = Inl x"
    using FormatValidationMessage_raises by blast
  with True show ?thesis by simp
next
  case False
  then show ?thesis by (simp add: FormatValidationMessage_message)
qed

lemma drain_result:
  assumes "s_ByrefValidationIndex st \<le> length (s_ByrefValidationEntries st)"
  shows "ProcessByrefValidationList rt st =
     (case find (entry_fails rt) (live_entries st) of
        None \<Rightarrow> (Inr (), st\<lparr>s_ByrefValidationIndex := 0,
                             calls := calls st @ entries_events rt (visited rt (live_entries st))\<rparr>)
      | Some e \<Rightarrow>
          (let m = (case FormatValidationMessage rt (pMD e) [] of
                      Inl x \<Rightarrow> None | Inr s \<Rightarrow> Some (corruption_message rt (pMD e)))
           in (Inl (Fatal COR_E_EXECUTIONENGINE m),
               st\<lparr>calls := calls st @ entries_events rt (visited rt (live_entries st)) @
                              [Ev_FatalError COR_E_EXECUTIONENGINE m]\<rparr>)))"
proof -
  obtain r e tr where v: "validate_entries rt (live_entries st) \<lparr>pByref = NULL, pMD = NULL\<rparr> (calls st) = (r, e, tr)"
    by (metis prod.collapse)
  have tr: "tr = calls st @ entries_events rt (visited rt (live_entries st))"
    using validate_entries_log [of rt "live_entries st" "\<lparr>pByref = NULL, pMD = NULL\<rparr>" "calls st"] v by simp
  have r: "r = (if \<exists>e \<in> set (live_entries st). entry_fails rt e then Inl (Thrown E_FAIL) else Inr ())"
    using validate_entries_fst [of rt "live_entries st" "\<lparr>pByref = NULL, pMD = NULL\<rparr>" "calls st"] v
    by simp
  show ?thesis
  proof (cases "find (entry_fails rt) (live_entries st)")
    case None
    then have "\<not> (\<exists>e \<in> set (live_entries st). entry_fails rt e)"
      by (simp add: find_None_iff)
    with r have "r = Inr ()" by simp
    then show ?thesis
      by (simp add: ProcessByrefValidationList_def drain_loop [OF assms] v tr None)
  next
    case (Some e')
    then have "\<exists>e \<in> set (live_entries st). entry_fails rt e"
      by (auto simp: find_Some_iff)
    with r have r': "r = Inl (Thrown E_FAIL)" by simp
    have e: "e = e'"
      using validate_entries_entry [OF Some, of "\<lparr>pByref = NULL, pMD = NULL\<rparr>" "calls st"] v by simp
    show ?thesis
      by (auto simp: ProcessByrefValidationList_def drain_loop [OF assms] v tr Some r' e Let_def
               dest: FormatValidationMessage_ok split: sum.splits)
  qed
qed

text \<open>
  Claim C1, as the code has it. For a list whose live count is within its size, the drain
  resolves the containing object of the live entries in index order and validates every
  object it finds, up to and including the first entry whose validation raises. When no
  validation raises, every live entry is visited and the live count is 0 afterwards. When
  one raises, the process ends in the fatal error: the entries after it are not visited
  and the live count is not reset.
\<close>

theorem ProcessByrefValidationList_visits:
  "s_ByrefValidationIndex st \<le> length (s_ByrefValidationEntries st) \<Longrightarrow>
   resolved_pointers (calls (snd (ProcessByrefValidationList rt st))) =
     resolved_pointers (calls st) @ map pByref (visited rt (live_entries st)) \<and>
   validated_objects (calls (snd (ProcessByrefValidationList rt st))) =
     validated_objects (calls st) @
     filter (\<lambda>obj. obj \<noteq> NULL) (map (\<lambda>e. GetContainingObject rt (pByref e)) (visited rt (live_entries st))) \<and>
   s_ByrefValidationEntries (snd (ProcessByrefValidationList rt st)) = s_ByrefValidationEntries st \<and>
   (if \<exists>e \<in> set (live_entries st). entry_fails rt e
    then (\<exists>m. fst (ProcessByrefValidationList rt st) = Inl (Fatal COR_E_EXECUTIONENGINE m)) \<and>
         s_ByrefValidationIndex (snd (ProcessByrefValidationList rt st)) = s_ByrefValidationIndex st
    else fst (ProcessByrefValidationList rt st) = Inr () \<and>
         s_ByrefValidationIndex (snd (ProcessByrefValidationList rt st)) = 0 \<and>
         visited rt (live_entries st) = live_entries st)"
proof (cases "find (entry_fails rt) (live_entries st)")
  case None
  assume wf: "s_ByrefValidationIndex st \<le> length (s_ByrefValidationEntries st)"
  from None have no: "\<forall>e \<in> set (live_entries st). \<not> entry_fails rt e"
    by (simp add: find_None_iff)
  with None show ?thesis
    by (simp add: drain_result [OF wf] entries_events_resolved entries_events_validated visited_all)
next
  case (Some e)
  assume wf: "s_ByrefValidationIndex st \<le> length (s_ByrefValidationEntries st)"
  from Some have ex: "\<exists>e \<in> set (live_entries st). entry_fails rt e"
    by (auto simp: find_Some_iff)
  with Some show ?thesis
    by (simp add: drain_result [OF wf] entries_events_resolved entries_events_validated Let_def)
qed

text \<open>
  Claim C2. When the validation of a live entry raises, the drain ends the process by one
  fatal error \<open>COR_E_EXECUTIONENGINE\<close>, and nothing is raised to the caller. When the
  message can be formatted, it is the text naming the call site of the first such entry:
  the phrase \<open>CALLI.\<close> for an entry without a method, else the class and the name of its
  method. When formatting raises (an append cannot grow the string, or the class name
  cannot be had), the fatal error carries no message.
\<close>

theorem ProcessByrefValidationList_fatal:
  "s_ByrefValidationIndex st \<le> length (s_ByrefValidationEntries st) \<Longrightarrow>
   find (entry_fails rt) (live_entries st) = Some e \<Longrightarrow>
   fst (ProcessByrefValidationList rt st) =
     Inl (Fatal COR_E_EXECUTIONENGINE
            (if format_raises rt (pMD e) then None else Some (corruption_message rt (pMD e)))) \<and>
   fatal_errors (calls (snd (ProcessByrefValidationList rt st))) =
     fatal_errors (calls st) @
       [(COR_E_EXECUTIONENGINE,
         if format_raises rt (pMD e) then None else Some (corruption_message rt (pMD e)))] \<and>
   ((\<forall>s t. \<not> SString_Append_fails rt s t) \<and> pMD e = NULL \<longrightarrow>
      fst (ProcessByrefValidationList rt st) =
        Inl (Fatal COR_E_EXECUTIONENGINE
               (Some ''Detected managed heap corruption, likely culprit is interop call through CALLI.''))) \<and>
   (\<forall>ssClassName.
      (\<forall>s t. \<not> SString_Append_fails rt s t) \<and> pMD e \<noteq> NULL \<and>
      GetFullyQualifiedNameForClass rt (pMD e) = Inr ssClassName \<longrightarrow>
      fst (ProcessByrefValidationList rt st) =
        Inl (Fatal COR_E_EXECUTIONENGINE
               (Some (''Detected managed heap corruption, likely culprit is interop call through method '' @
                      [CHR 0x27] @ ssClassName @ [NAMESPACE_SEPARATOR_CHAR rt] @ GetName rt (pMD e) @
                      [CHR 0x27, CHR ''.''])))) \<and>
   (\<forall>x. pMD e \<noteq> NULL \<and> GetFullyQualifiedNameForClass rt (pMD e) = Inl x \<longrightarrow>
      fst (ProcessByrefValidationList rt st) = Inl (Fatal COR_E_EXECUTIONENGINE None)) \<and>
   ((\<forall>s t. SString_Append_fails rt s t) \<longrightarrow>
      fst (ProcessByrefValidationList rt st) = Inl (Fatal COR_E_EXECUTIONENGINE None))"
proof -
  assume wf: "s_ByrefValidationIndex st \<le> length (s_ByrefValidationEntries st)"
    and f: "find (entry_fails rt) (live_entries st) = Some e"
  have res: "fst (ProcessByrefValidationList rt st) =
     Inl (Fatal COR_E_EXECUTIONENGINE
            (if format_raises rt (pMD e) then None else Some (corruption_message rt (pMD e))))"
    by (simp add: drain_result [OF wf] f Let_def drain_message)
  have log: "fatal_errors (calls (snd (ProcessByrefValidationList rt st))) =
     fatal_errors (calls st) @
       [(COR_E_EXECUTIONENGINE,
         if format_raises rt (pMD e) then None else Some (corruption_message rt (pMD e)))]"
    by (simp add: drain_result [OF wf] f Let_def drain_message entries_events_fatal)
  have calli: "fst (ProcessByrefValidationList rt st) =
        Inl (Fatal COR_E_EXECUTIONENGINE
               (Some ''Detected managed heap corruption, likely culprit is interop call through CALLI.''))"
    if "\<forall>s t. \<not> SString_Append_fails rt s t" "pMD e = NULL"
    using that by (simp add: res format_raises_def corruption_message_def culprit_def)
  have named: "fst (ProcessByrefValidationList rt st) =
        Inl (Fatal COR_E_EXECUTIONENGINE
               (Some (''Detected managed heap corruption, likely culprit is interop call through method '' @
                      [CHR 0x27] @ ssClassName @ [NAMESPACE_SEPARATOR_CHAR rt] @ GetName rt (pMD e) @
                      [CHR 0x27, CHR ''.''])))"
    if "\<forall>s t. \<not> SString_Append_fails rt s t" "pMD e \<noteq> NULL"
       "GetFullyQualifiedNameForClass rt (pMD e) = Inr ssClassName" for ssClassName
    using that by (simp add: res format_raises_def corruption_message_def culprit_def)
  have noname: "fst (ProcessByrefValidationList rt st) = Inl (Fatal COR_E_EXECUTIONENGINE None)"
    if "pMD e \<noteq> NULL" "GetFullyQualifiedNameForClass rt (pMD e) = Inl x" for x
    using that by (simp add: res format_raises_def)
  have nomem: "fst (ProcessByrefValidationList rt st) = Inl (Fatal COR_E_EXECUTIONENGINE None)"
    if "\<forall>s t. SString_Append_fails rt s t"
    using that by (simp add: res format_raises_def)
  from res log calli named noname nomem show ?thesis
    by blast
qed

lemma example_fails: "entry_fails example_runtime e = (1200 \<le> pByref e \<and> pByref e < 1400)"
  apply (simp add: entry_fails_def object_fails_def example_runtime_def)
  apply auto
  done

text \<open>
  On the first list both live entries are visited, both objects validated, and the count
  is reset; on the second only the first entry is visited and the count stays 2.
\<close>

theorem ProcessByrefValidationList_visits_witness:
  "s_ByrefValidationIndex clean_queue \<le> length (s_ByrefValidationEntries clean_queue) \<and>
   resolved_pointers (calls (snd (ProcessByrefValidationList example_runtime clean_queue))) = [1010, 1420] \<and>
   validated_objects (calls (snd (ProcessByrefValidationList example_runtime clean_queue))) = [1000, 1400] \<and>
   fst (ProcessByrefValidationList example_runtime clean_queue) = Inr () \<and>
   s_ByrefValidationIndex (snd (ProcessByrefValidationList example_runtime clean_queue)) = 0 \<and>
   s_ByrefValidationIndex corrupt_queue \<le> length (s_ByrefValidationEntries corrupt_queue) \<and>
   resolved_pointers (calls (snd (ProcessByrefValidationList example_runtime corrupt_queue))) = [1310] \<and>
   validated_objects (calls (snd (ProcessByrefValidationList example_runtime corrupt_queue))) = [1300] \<and>
   s_ByrefValidationIndex (snd (ProcessByrefValidationList example_runtime corrupt_queue)) = 2"
  using ProcessByrefValidationList_visits [where rt = example_runtime and st = clean_queue]
        ProcessByrefValidationList_visits [where rt = example_runtime and st = corrupt_queue]
  by (simp add: example_fails live_entries_def clean_queue_def corrupt_queue_def)
     (simp add: example_runtime_def)

text \<open>
  Claim C1 as stated fails on the second list: the drain ends at its first entry, the
  second entry is never resolved, and the live count is still 2.
\<close>

theorem ProcessByrefValidationList_counterexample:
  "map pByref (live_entries corrupt_queue) = [1310, 1010] \<and>
   resolved_pointers (calls (snd (ProcessByrefValidationList example_runtime corrupt_queue))) = [1310] \<and>
   fst (ProcessByrefValidationList example_runtime corrupt_queue) =
     Inl (Fatal COR_E_EXECUTIONENGINE
            (Some (''Detected managed heap corruption, likely culprit is interop call through method '' @
                   [CHR 0x27] @ ''N.C.M'' @ [CHR 0x27, CHR ''.'']))) \<and>
   s_ByrefValidationIndex (snd (ProcessByrefValidationList example_runtime corrupt_queue)) = 2 \<and>
   \<not> (resolved_pointers (calls (snd (ProcessByrefValidationList example_runtime corrupt_queue))) =
        map pByref (live_entries corrupt_queue) \<and>
      s_ByrefValidationIndex (snd (ProcessByrefValidationList example_runtime corrupt_queue)) = 0)"
proof -
  have wf: "s_ByrefValidationIndex corrupt_queue \<le> length (s_ByrefValidationEntries corrupt_queue)"
    by (simp add: corrupt_queue_def)
  have fmt: "FormatValidationMessage example_runtime 5 [] =
      Inr (''Detected managed heap corruption, likely culprit is interop call through method '' @
                   [CHR 0x27] @ ''N.C.M'' @ [CHR 0x27, CHR ''.''])"
    by (simp add: FormatValidationMessage_def bindE_def SString_Append_def example_runtime_def)
  have msg: "corruption_message example_runtime 5 =
      ''Detected managed heap corruption, likely culprit is interop call through method '' @
                   [CHR 0x27] @ ''N.C.M'' @ [CHR 0x27, CHR ''.'']"
    by (simp add: corruption_message_def culprit_def example_runtime_def)
  have live: "live_entries corrupt_queue = [\<lparr>pByref = 1310, pMD = 5\<rparr>, \<lparr>pByref = 1010, pMD = 6\<rparr>]"
    by (simp add: live_entries_def corrupt_queue_def)
  show ?thesis
    by (simp add: drain_result [OF wf] live example_fails fmt msg entries_events_resolved Let_def)
       (simp add: corrupt_queue_def)
qed

lemma no_memory_fails: "entry_fails no_memory_runtime e = entry_fails example_runtime e"
  by (simp add: entry_fails_def object_fails_def no_memory_runtime_def)

lemma no_name_fails: "entry_fails no_name_runtime e = entry_fails example_runtime e"
  by (simp add: entry_fails_def object_fails_def no_name_runtime_def)

text \<open>
  On the second list the message names method \<open>N.C.M\<close> of the first entry, and on the list
  of the \<open>CALLI\<close> entry it says \<open>CALLI.\<close>; in the process that cannot grow a string, and in
  the one where the class name cannot be had, the fatal error carries no message.
\<close>

theorem ProcessByrefValidationList_fatal_witness:
  "s_ByrefValidationIndex corrupt_queue \<le> length (s_ByrefValidationEntries corrupt_queue) \<and>
   find (entry_fails example_runtime) (live_entries corrupt_queue) = Some \<lparr>pByref = 1310, pMD = 5\<rparr> \<and>
   fst (ProcessByrefValidationList example_runtime corrupt_queue) =
     Inl (Fatal COR_E_EXECUTIONENGINE
            (Some (''Detected managed heap corruption, likely culprit is interop call through method '' @
                   [CHR 0x27] @ ''N.C.M'' @ [CHR 0x27, CHR ''.'']))) \<and>
   fatal_errors (calls (snd (ProcessByrefValidationList example_runtime corrupt_queue))) =
     [(COR_E_EXECUTIONENGINE,
       Some (''Detected managed heap corruption, likely culprit is interop call through method '' @
                   [CHR 0x27] @ ''N.C.M'' @ [CHR 0x27, CHR ''.'']))] \<and>
   s_ByrefValidationIndex calli_queue \<le> length (s_ByrefValidationEntries calli_queue) \<and>
   find (entry_fails example_runtime) (live_entries calli_queue) = Some \<lparr>pByref = 1310, pMD = NULL\<rparr> \<and>
   fst (ProcessByrefValidationList example_runtime calli_queue) =
     Inl (Fatal COR_E_EXECUTIONENGINE
            (Some ''Detected managed heap corruption, likely culprit is interop call through CALLI.'')) \<and>
   fatal_errors (calls (snd (ProcessByrefValidationList example_runtime calli_queue))) =
     [(COR_E_EXECUTIONENGINE,
       Some ''Detected managed heap corruption, likely culprit is interop call through CALLI.'')] \<and>
   find (entry_fails no_memory_runtime) (live_entries corrupt_queue) = Some \<lparr>pByref = 1310, pMD = 5\<rparr> \<and>
   fst (ProcessByrefValidationList no_memory_runtime corrupt_queue) = Inl (Fatal COR_E_EXECUTIONENGINE None) \<and>
   fatal_errors (calls (snd (ProcessByrefValidationList no_memory_runtime corrupt_queue))) =
     [(COR_E_EXECUTIONENGINE, None)] \<and>
   find (entry_fails no_name_runtime) (live_entries corrupt_queue) = Some \<lparr>pByref = 1310, pMD = 5\<rparr> \<and>
   GetFullyQualifiedNameForClass no_name_runtime 5 = Inl E_FAIL \<and>
   fst (ProcessByrefValidationList no_name_runtime corrupt_queue) = Inl (Fatal COR_E_EXECUTIONENGINE None) \<and>
   fatal_errors (calls (snd (ProcessByrefValidationList no_name_runtime corrupt_queue))) =
     [(COR_E_EXECUTIONENGINE, None)]"
proof -
  have wf: "s_ByrefValidationIndex corrupt_queue \<le> length (s_ByrefValidationEntries corrupt_queue)"
    by (simp add: corrupt_queue_def)
  have wfc: "s_ByrefValidationIndex calli_queue \<le> length (s_ByrefValidationEntries calli_queue)"
    by (simp add: calli_queue_def)
  have f: "find (entry_fails example_runtime) (live_entries corrupt_queue) = Some \<lparr>pByref = 1310, pMD = 5\<rparr>"
    by (simp add: live_entries_def corrupt_queue_def example_fails)
  have c: "find (entry_fails example_runtime) (live_entries calli_queue) = Some \<lparr>pByref = 1310, pMD = NULL\<rparr>"
    by (simp add: live_entries_def calli_queue_def example_fails)
  have g: "find (entry_fails no_memory_runtime) (live_entries corrupt_queue) = Some \<lparr>pByref = 1310, pMD = 5\<rparr>"
    by (simp add: live_entries_def corrupt_queue_def example_fails no_memory_fails)
  have h: "find (entry_fails no_name_runtime) (live_entries corrupt_queue) = Some \<lparr>pByref = 1310, pMD = 5\<rparr>"
    by (simp add: live_entries_def corrupt_queue_def example_fails no_name_fails)
  have raises:
    "\<not> format_raises example_runtime 5" "\<not> format_raises example_runtime NULL"
    "format_raises no_memory_runtime 5" "format_raises no_name_runtime 5"
    "GetFullyQualifiedNameForClass no_name_runtime 5 = Inl E_FAIL"
    by (simp_all add: format_raises_def example_runtime_def no_memory_runtime_def no_name_runtime_def)
  have msg:
    "corruption_message example_runtime 5 =
      ''Detected managed heap corruption, likely culprit is interop call through method '' @
                   [CHR 0x27] @ ''N.C.M'' @ [CHR 0x27, CHR ''.'']"
    "corruption_message example_runtime NULL =
      ''Detected managed heap corruption, likely culprit is interop call through CALLI.''"
    by (simp_all add: corruption_message_def culprit_def example_runtime_def)
  have empty: "calls corrupt_queue = []" "calls calli_queue = []"
    by (simp_all add: corrupt_queue_def calli_queue_def)
  have a: "fst (ProcessByrefValidationList example_runtime corrupt_queue) =
             Inl (Fatal COR_E_EXECUTIONENGINE (Some (corruption_message example_runtime 5))) \<and>
           fatal_errors (calls (snd (ProcessByrefValidationList example_runtime corrupt_queue))) =
             [(COR_E_EXECUTIONENGINE, Some (corruption_message example_runtime 5))]"
    using ProcessByrefValidationList_fatal [OF wf f] by (simp add: raises empty)
  have b: "fst (ProcessByrefValidationList example_runtime calli_queue) =
             Inl (Fatal COR_E_EXECUTIONENGINE (Some (corruption_message example_runtime NULL))) \<and>
           fatal_errors (calls (snd (ProcessByrefValidationList example_runtime calli_queue))) =
             [(COR_E_EXECUTIONENGINE, Some (corruption_message example_runtime NULL))]"
    using ProcessByrefValidationList_fatal [OF wfc c] by (simp add: raises empty)
  have d: "fst (ProcessByrefValidationList no_memory_runtime corrupt_queue) =
             Inl (Fatal COR_E_EXECUTIONENGINE None) \<and>
           fatal_errors (calls (snd (ProcessByrefValidationList no_memory_runtime corrupt_queue))) =
             [(COR_E_EXECUTIONENGINE, None)]"
    using ProcessByrefValidationList_fatal [OF wf g] by (simp add: raises empty)
  have e: "fst (ProcessByrefValidationList no_name_runtime corrupt_queue) =
             Inl (Fatal COR_E_EXECUTIONENGINE None) \<and>
           fatal_errors (calls (snd (ProcessByrefValidationList no_name_runtime corrupt_queue))) =
             [(COR_E_EXECUTIONENGINE, None)]"
    using ProcessByrefValidationList_fatal [OF wf h] by (simp add: raises empty)
  from a b d e show ?thesis
    using wf wfc f c g h raises(5) by (simp add: msg)
qed

subsection \<open>Validation of one object\<close>

lemma events_next_lookups:
  "next_lookups (ValidateObjectInternal_events rt obj withNext) =
     (if withNext \<and> (obj = NULL \<or> ObjectValidate rt obj True False True) then [obj] else [])"
  by (simp add: ValidateObjectInternal_events_def ValidateObjectInternal_def Let_def)

lemma events_method_table_loads:
  "method_table_loads (ValidateObjectInternal_events rt obj withNext) =
     (if withNext \<and> (obj = NULL \<or> ObjectValidate rt obj True False True) \<and> NextObj rt obj \<noteq> NULL
      then [NextObj rt obj] else [])"
  by (simp add: ValidateObjectInternal_events_def ValidateObjectInternal_def Let_def)

lemma events_validated_neighbours:
  "validated_neighbours (ValidateObjectInternal_events rt obj withNext) =
     (if withNext \<and> (obj = NULL \<or> ObjectValidate rt obj True False True) \<and> NextObj rt obj \<noteq> NULL \<and>
         GetMethodTablePtr rt (NextObj rt obj) \<noteq> NULL \<and>
         GetMethodTablePtr rt (NextObj rt obj) \<noteq> g_pFreeObjectMethodTable rt
      then [NextObj rt obj] else [])"
  by (simp add: ValidateObjectInternal_events_def ValidateObjectInternal_def Let_def)

text \<open>
  Claim C5. When the validation of an object gets to its next object (the object itself
  is null or passes) and that next object exists, the method table of the next object is
  loaded exactly once, and the next object is validated if and only if the loaded value is
  neither null nor the free-object method table.
\<close>

theorem ValidateObjectInternal_next_object:
  "pObjUNSAFE = NULL \<or> ObjectValidate rt pObjUNSAFE True False True \<Longrightarrow>
   NextObj rt pObjUNSAFE \<noteq> NULL \<Longrightarrow>
   method_table_loads (snd (ValidateObjectInternal rt pObjUNSAFE True tr)) =
     method_table_loads tr @ [NextObj rt pObjUNSAFE] \<and>
   validated_neighbours (snd (ValidateObjectInternal rt pObjUNSAFE True tr)) =
     validated_neighbours tr @
     (if GetMethodTablePtr rt (NextObj rt pObjUNSAFE) \<noteq> NULL \<and>
         GetMethodTablePtr rt (NextObj rt pObjUNSAFE) \<noteq> g_pFreeObjectMethodTable rt
      then [NextObj rt pObjUNSAFE] else [])"
  by (simp add: ValidateObjectInternal_log events_method_table_loads events_validated_neighbours)

text \<open>
  Object 1000 has the sound neighbour 1100, which is validated; object 1400 has the free
  neighbour 1500, whose method table is loaded once and which is not validated.
\<close>

theorem ValidateObjectInternal_next_object_witness:
  "ObjectValidate example_runtime 1000 True False True \<and> NextObj example_runtime 1000 \<noteq> NULL \<and>
   method_table_loads (snd (ValidateObjectInternal example_runtime 1000 True [])) = [1100] \<and>
   validated_neighbours (snd (ValidateObjectInternal example_runtime 1000 True [])) = [1100] \<and>
   ObjectValidate example_runtime 1400 True False True \<and> NextObj example_runtime 1400 \<noteq> NULL \<and>
   GetMethodTablePtr example_runtime 1500 = g_pFreeObjectMethodTable example_runtime \<and>
   method_table_loads (snd (ValidateObjectInternal example_runtime 1400 True [])) = [1500] \<and>
   validated_neighbours (snd (ValidateObjectInternal example_runtime 1400 True [])) = []"
  using ValidateObjectInternal_next_object [where rt = example_runtime and pObjUNSAFE = 1000 and tr = "[]"]
        ValidateObjectInternal_next_object [where rt = example_runtime and pObjUNSAFE = 1400 and tr = "[]"]
  by (simp add: example_runtime_def)

lemma ValidateObject_log:
  "\<exists>tail. snd (ValidateObject rt obj md pThisUNSAFE tr) =
            tr @ ValidateObjectInternal_events rt obj (\<not> IsConcurrentGCInProgress rt) @ tail \<and>
          next_lookups tail = [] \<and> method_table_loads tail = [] \<and> validated_neighbours tail = []"
  by (simp add: ValidateObject_def ValidateObjectInternal_split split: sum.splits)

text \<open>
  Claim C8. \<open>ValidateObject\<close> goes on to the next object (looks it up, loads its method
  table, validates it when that table is a legal one) exactly when no concurrent collection
  is in progress, for an object that is null or passes its own validation; while a
  concurrent collection is in progress it does none of that.
\<close>

theorem ValidateObject_next_object:
  "next_lookups (snd (ValidateObject rt pObjUNSAFE md pThisUNSAFE tr)) =
     next_lookups tr @
     (if \<not> IsConcurrentGCInProgress rt \<and> (pObjUNSAFE = NULL \<or> ObjectValidate rt pObjUNSAFE True False True)
      then [pObjUNSAFE] else []) \<and>
   method_table_loads (snd (ValidateObject rt pObjUNSAFE md pThisUNSAFE tr)) =
     method_table_loads tr @
     (if \<not> IsConcurrentGCInProgress rt \<and> (pObjUNSAFE = NULL \<or> ObjectValidate rt pObjUNSAFE True False True) \<and>
         NextObj rt pObjUNSAFE \<noteq> NULL
      then [NextObj rt pObjUNSAFE] else []) \<and>
   validated_neighbours (snd (ValidateObject rt pObjUNSAFE md pThisUNSAFE tr)) =
     validated_neighbours tr @
     (if \<not> IsConcurrentGCInProgress rt \<and> (pObjUNSAFE = NULL \<or> ObjectValidate rt pObjUNSAFE True False True) \<and>
         NextObj rt pObjUNSAFE \<noteq> NULL \<and>
         GetMethodTablePtr rt (NextObj rt pObjUNSAFE) \<noteq> NULL \<and>
         GetMethodTablePtr rt (NextObj rt pObjUNSAFE) \<noteq> g_pFreeObjectMethodTable rt
      then [NextObj rt pObjUNSAFE] else [])"
proof -
  obtain tail where
    "snd (ValidateObject rt pObjUNSAFE md pThisUNSAFE tr) =
       tr @ ValidateObjectInternal_events rt pObjUNSAFE (\<not> IsConcurrentGCInProgress rt) @ tail"
    "next_lookups tail = []" "method_table_loads tail = []" "validated_neighbours tail = []"
    using ValidateObject_log by blast
  then show ?thesis
    by (simp add: events_next_lookups events_method_table_loads events_validated_neighbours)
qed

text \<open>The same call on object 1000, without and with a concurrent collection in progress.\<close>

theorem ValidateObject_next_object_witness:
  "\<not> IsConcurrentGCInProgress example_runtime \<and>
   next_lookups (snd (ValidateObject example_runtime 1000 5 NULL [])) = [1000] \<and>
   validated_neighbours (snd (ValidateObject example_runtime 1000 5 NULL [])) = [1100] \<and>
   IsConcurrentGCInProgress (example_runtime\<lparr>IsConcurrentGCInProgress := True\<rparr>) \<and>
   next_lookups (snd (ValidateObject (example_runtime\<lparr>IsConcurrentGCInProgress := True\<rparr>) 1000 5 NULL [])) = [] \<and>
   method_table_loads (snd (ValidateObject (example_runtime\<lparr>IsConcurrentGCInProgress := True\<rparr>) 1000 5 NULL [])) = [] \<and>
   validated_neighbours (snd (ValidateObject (example_runtime\<lparr>IsConcurrentGCInProgress := True\<rparr>) 1000 5 NULL [])) = []"
  using ValidateObject_next_object [where rt = example_runtime and pObjUNSAFE = 1000 and md = 5
          and pThisUNSAFE = NULL and tr = "[]"]
        ValidateObject_next_object [where rt = "example_runtime\<lparr>IsConcurrentGCInProgress := True\<rparr>"
          and pObjUNSAFE = 1000 and md = 5 and pThisUNSAFE = NULL and tr = "[]"]
  by (simp add: example_runtime_def)

subsection \<open>Enqueueing a byref\<close>

text \<open>
  Claim C7. For a pointer outside the managed heap \<open>ValidateByref\<close> returns at once: the
  entries, the live count, the size and the log (so no collection is requested) are as
  before.
\<close>

theorem ValidateByref_outside_heap:
  "\<not> IsHeapPointer rt byref \<Longrightarrow> ValidateByref rt byref md pThisUNSAFE st = (Inr (), st)"
  by (simp add: ValidateByref_def)

text \<open>Address 500 is outside the heap of the example.\<close>

theorem ValidateByref_outside_heap_witness:
  "\<not> IsHeapPointer example_runtime 500 \<and>
   ValidateByref example_runtime 500 5 NULL full_queue = (Inr (), full_queue) \<and>
   collections (calls (snd (ValidateByref example_runtime 500 5 NULL full_queue))) = []"
  using ValidateByref_outside_heap [of example_runtime 500 5 NULL full_queue]
  by (simp add: example_runtime_def full_queue_def)

lemma ValidateByref_locked_calls:
  "ValidateByref_locked rt entry st = Inr (st1, n) \<Longrightarrow> calls st1 = calls st \<and> s_ByrefValidationIndex st1 = n"
  by (auto simp: ValidateByref_locked_def bindE_def Let_def split: if_splits option.splits sum.splits)

text \<open>
  Claim C9. \<open>ValidateByref\<close> requests a collection of generation 0 exactly when it has
  appended an entry and the live count after the append exceeds
  \<open>BYREF_VALIDATION_LIST_MAX_SIZE\<close>; it requests nothing else, and so never a collection
  when the resulting live count is at or below that mark.
\<close>

theorem ValidateByref_collect:
  "calls (snd (ValidateByref rt byref md pThisUNSAFE st)) =
     calls st @
       (if IsHeapPointer rt byref \<and> fst (ValidateByref rt byref md pThisUNSAFE st) = Inr () \<and>
           s_ByrefValidationIndex (snd (ValidateByref rt byref md pThisUNSAFE st)) > BYREF_VALIDATION_LIST_MAX_SIZE rt
        then [Ev_GarbageCollect 0] else [])"
  by (auto simp: ValidateByref_def Let_def dest: ValidateByref_locked_calls split: sum.splits prod.splits)

text \<open>With the mark at 2: an append that brings the count to 2 requests nothing, one that brings it to 3 does.\<close>

theorem ValidateByref_collect_witness:
  "IsHeapPointer example_runtime 1020 \<and>
   s_ByrefValidationIndex (snd (ValidateByref example_runtime 1020 6 NULL full_queue)) = 2 \<and>
   calls (snd (ValidateByref example_runtime 1020 6 NULL full_queue)) = [] \<and>
   s_ByrefValidationIndex (snd (ValidateByref example_runtime 1020 6 NULL clean_queue)) = 3 \<and>
   calls (snd (ValidateByref example_runtime 1020 6 NULL clean_queue)) = [Ev_GarbageCollect 0]"
  using ValidateByref_collect [of example_runtime 1020 6 NULL full_queue]
        ValidateByref_collect [of example_runtime 1020 6 NULL clean_queue]
  by (simp add: ValidateByref_def ValidateByref_locked_def bindE_def Size_def ClrSafeInt_multiply_def
        ClrSafeInt_addition_def ReSizeThrows_def SIZE_T_MAX_def example_runtime_def full_queue_def
        clean_queue_def Let_def)

text \<open>
  Claim C6. When the list is full (the live count is the size), \<open>ValidateByref\<close> of a
  heap pointer resizes to twice the size plus one, keeps every entry stored before, stores
  the new entry after them and counts it. When twice the size plus one does not fit
  \<open>SIZE_T\<close> it raises \<open>COR_E_OVERFLOW\<close> to its caller and leaves the list as it was;
  nothing fatal happens. (A resize that cannot allocate raises too, with the list as it was.)
\<close>

theorem ValidateByref_grows:
  "IsHeapPointer rt byref \<Longrightarrow>
   s_ByrefValidationIndex st = Size (s_ByrefValidationEntries st) \<Longrightarrow>
   (if 2 * Size (s_ByrefValidationEntries st) + 1 > SIZE_T_MAX
    then ValidateByref rt byref md pThisUNSAFE st = (Inl (Thrown COR_E_OVERFLOW), st)
    else if ReSize_fails rt (2 * Size (s_ByrefValidationEntries st) + 1)
    then ValidateByref rt byref md pThisUNSAFE st = (Inl (Thrown E_OUTOFMEMORY), st)
    else fst (ValidateByref rt byref md pThisUNSAFE st) = Inr () \<and>
         Size (s_ByrefValidationEntries (snd (ValidateByref rt byref md pThisUNSAFE st))) =
           2 * Size (s_ByrefValidationEntries st) + 1 \<and>
         take (Size (s_ByrefValidationEntries st))
              (s_ByrefValidationEntries (snd (ValidateByref rt byref md pThisUNSAFE st))) =
           s_ByrefValidationEntries st \<and>
         s_ByrefValidationEntries (snd (ValidateByref rt byref md pThisUNSAFE st)) !
             Size (s_ByrefValidationEntries st) =
           \<lparr>pByref = byref, pMD = ResolveInteropMethod rt pThisUNSAFE md\<rparr> \<and>
         s_ByrefValidationIndex (snd (ValidateByref rt byref md pThisUNSAFE st)) =
           Size (s_ByrefValidationEntries st) + 1)"
proof -
  assume heap: "IsHeapPointer rt byref"
    and full: "s_ByrefValidationIndex st = Size (s_ByrefValidationEntries st)"
  let ?n = "length (s_ByrefValidationEntries st)"
  show ?thesis
  proof (cases "2 * ?n + 1 > SIZE_T_MAX")
    case True
    then show ?thesis
      using heap full
      by (auto simp: ValidateByref_def ValidateByref_locked_def bindE_def Size_def
            ClrSafeInt_multiply_def ClrSafeInt_addition_def Let_def mult.commute)
  next
    case False
    then have small: "?n * 2 \<le> SIZE_T_MAX" "?n * 2 + 1 \<le> SIZE_T_MAX" "Suc (?n * 2) \<le> SIZE_T_MAX"
      by simp_all
    have m: "Suc ?n mod Suc SIZE_T_MAX = Suc ?n"
      using False by simp
    show ?thesis
      using heap full False small m
      by (simp add: ValidateByref_def ValidateByref_locked_def bindE_def Size_def
            ClrSafeInt_multiply_def ClrSafeInt_addition_def ReSizeThrows_def Let_def mult.commute
            nth_append)
  qed
qed

text \<open>A list of size 1 grows to size 3; a list of size \<open>2 ^ 63\<close> overflows.\<close>

theorem ValidateByref_grows_witness:
  "IsHeapPointer example_runtime 1020 \<and>
   s_ByrefValidationIndex full_queue = Size (s_ByrefValidationEntries full_queue) \<and>
   fst (ValidateByref example_runtime 1020 6 NULL full_queue) = Inr () \<and>
   Size (s_ByrefValidationEntries (snd (ValidateByref example_runtime 1020 6 NULL full_queue))) = 3 \<and>
   take 1 (s_ByrefValidationEntries (snd (ValidateByref example_runtime 1020 6 NULL full_queue))) =
     [\<lparr>pByref = 1010, pMD = 5\<rparr>] \<and>
   s_ByrefValidationEntries (snd (ValidateByref example_runtime 1020 6 NULL full_queue)) ! 1 =
     \<lparr>pByref = 1020, pMD = 6\<rparr> \<and>
   s_ByrefValidationIndex huge_queue = Size (s_ByrefValidationEntries huge_queue) \<and>
   2 * Size (s_ByrefValidationEntries huge_queue) + 1 > SIZE_T_MAX \<and>
   ValidateByref example_runtime 1020 6 NULL huge_queue = (Inl (Thrown COR_E_OVERFLOW), huge_queue)"
  using ValidateByref_grows [of example_runtime 1020 full_queue 6 NULL]
        ValidateByref_grows [of example_runtime 1020 huge_queue 6 NULL]
  by (simp add: Size_def SIZE_T_MAX_def example_runtime_def full_queue_def huge_queue_def
        ResolveInteropMethod_def)

text \<open>The list stays well formed: the live count within the size, the size within \<open>SIZE_T\<close>.\<close>

lemma ValidateByref_invariant:
  "s_ByrefValidationIndex st \<le> Size (s_ByrefValidationEntries st) \<Longrightarrow>
   Size (s_ByrefValidationEntries st) \<le> SIZE_T_MAX \<Longrightarrow>
   s_ByrefValidationIndex (snd (ValidateByref rt byref md pThisUNSAFE st))
     \<le> Size (s_ByrefValidationEntries (snd (ValidateByref rt byref md pThisUNSAFE st))) \<and>
   Size (s_ByrefValidationEntries (snd (ValidateByref rt byref md pThisUNSAFE st))) \<le> SIZE_T_MAX"
  by (auto simp: ValidateByref_def ValidateByref_locked_def bindE_def Size_def
            ClrSafeInt_multiply_def ClrSafeInt_addition_def ReSizeThrows_def Let_def mod_Suc
         split: if_splits option.splits sum.splits)

subsection \<open>The interface cache and the COM helper\<close>

lemma flag_writes_simps [simp]:
  "flag_writes [] = []"
  "flag_writes (ev # tr) = (case ev of Ev_Write_pfNeedsRelease b \<Rightarrow> [b] | _ \<Rightarrow> []) @ flag_writes tr"
  "flag_writes (xs @ ys) = flag_writes xs @ flag_writes ys"
  "flag_writes (map Ev_CacheProbe ns) = []"
  by (simp_all add: flag_writes_def)

lemma cache_probes_simps [simp]:
  "cache_probes [] = []"
  "cache_probes (ev # tr) = (case ev of Ev_CacheProbe i \<Rightarrow> [i] | _ \<Rightarrow> []) @ cache_probes tr"
  "cache_probes (xs @ ys) = cache_probes xs @ cache_probes ys"
  by (simp_all add: cache_probes_def)

lemma cache_probes_map [simp]: "cache_probes (map Ev_CacheProbe ns) = ns"
  by (induction ns) simp_all

lemma resolver_calls_simps [simp]:
  "resolver_calls [] = []"
  "resolver_calls (ev # tr) =
     (case ev of Ev_GetComIPFromRCWThrowing pSrc pItfMT \<Rightarrow> [(pSrc, pItfMT)] | _ \<Rightarrow> []) @ resolver_calls tr"
  "resolver_calls (xs @ ys) = resolver_calls xs @ resolver_calls ys"
  "resolver_calls (map Ev_CacheProbe ns) = []"
  by (simp_all add: resolver_calls_def)

lemma cache_loop:
  "i \<le> INTERFACE_ENTRY_CACHE_SIZE crt \<Longrightarrow>
   GetIUnknownFromRCWCache_loop crt pRCW pItfMT i tr =
     (case find (\<lambda>k. m_pMT (m_aInterfaceEntries pRCW k) = pItfMT) [i ..< INTERFACE_ENTRY_CACHE_SIZE crt] of
        None \<Rightarrow> (NULL, tr @ map Ev_CacheProbe [i ..< INTERFACE_ENTRY_CACHE_SIZE crt])
      | Some k \<Rightarrow> (m_pUnknown (m_aInterfaceEntries pRCW k), tr @ map Ev_CacheProbe [i ..< Suc k]))"
proof (induction crt pRCW pItfMT i tr rule: GetIUnknownFromRCWCache_loop.induct)
  case (1 crt pRCW pItfMT i tr)
  show ?case
  proof (cases "i < INTERFACE_ENTRY_CACHE_SIZE crt")
    case False
    then show ?thesis
      by (subst GetIUnknownFromRCWCache_loop.simps) simp
  next
    case True
    note lt = True
    show ?thesis
    proof (cases "m_pMT (m_aInterfaceEntries pRCW i) = pItfMT")
      case True
      with lt show ?thesis
        by (subst GetIUnknownFromRCWCache_loop.simps) (simp add: upt_conv_Cons)
    next
      case False
      have ih: "GetIUnknownFromRCWCache_loop crt pRCW pItfMT (i + 1) (tr @ [Ev_CacheProbe i]) =
         (case find (\<lambda>k. m_pMT (m_aInterfaceEntries pRCW k) = pItfMT) [i + 1 ..< INTERFACE_ENTRY_CACHE_SIZE crt] of
            None \<Rightarrow> (NULL, (tr @ [Ev_CacheProbe i]) @ map Ev_CacheProbe [i + 1 ..< INTERFACE_ENTRY_CACHE_SIZE crt])
          | Some k \<Rightarrow> (m_pUnknown (m_aInterfaceEntries pRCW k), (tr @ [Ev_CacheProbe i]) @ map Ev_CacheProbe [i + 1 ..< Suc k]))"
        using 1(1) [OF lt refl False] lt by simp
      have ge: "find (\<lambda>k. m_pMT (m_aInterfaceEntries pRCW k) = pItfMT) [Suc i ..< INTERFACE_ENTRY_CACHE_SIZE crt] = Some k
                 \<Longrightarrow> i < k" for k
        by (auto simp: find_Some_iff)
      show ?thesis
        apply (subst GetIUnknownFromRCWCache_loop.simps)
        using lt False ih
        apply (auto simp: upt_conv_Cons Let_def split: option.splits dest: ge)
        done
    qed
  qed
qed

lemma cache_fast_path:
  "GetCOMIPFromRCW_GetIUnknownFromRCWCache crt pRCW pItfMT tr =
     (if context_accepted crt pRCW
      then (cache_lookup crt pRCW pItfMT, tr @ map Ev_CacheProbe (probed_slots crt pRCW pItfMT))
      else (NULL, tr))"
  by (auto simp: GetCOMIPFromRCW_GetIUnknownFromRCWCache_def context_accepted_def cache_lookup_def
        probed_slots_def cache_loop Let_def split: option.splits)

lemma probed_slots_nonempty: "0 < INTERFACE_ENTRY_CACHE_SIZE crt \<Longrightarrow> probed_slots crt pRCW pItfMT \<noteq> []"
  by (simp add: probed_slots_def split: option.splits)

text \<open>
  Claim C4. The fast path reads cache slots if and only if the wrapper is free-threaded or
  the current context of the thread is the wrapper's context cookie. Then it reads the
  slots from 0 up to the first that holds the interface and returns that slot's pointer
  (null when no slot holds it); otherwise it reads none and returns null. In particular the
  cache of a free-threaded wrapper is read whatever the context of the thread.
\<close>

theorem GetIUnknownFromRCWCache_scans:
  "0 < INTERFACE_ENTRY_CACHE_SIZE crt \<Longrightarrow>
   (cache_probes (snd (GetCOMIPFromRCW_GetIUnknownFromRCWCache crt pRCW pItfMT tr)) \<noteq> cache_probes tr
      \<longleftrightarrow> IsFreeThreaded pRCW \<or> pCurrentCtx (GetOrCreateOleTlsData crt) = GetWrapperCtxCookie pRCW) \<and>
   cache_probes (snd (GetCOMIPFromRCW_GetIUnknownFromRCWCache crt pRCW pItfMT tr)) =
     cache_probes tr @
     (if IsFreeThreaded pRCW \<or> pCurrentCtx (GetOrCreateOleTlsData crt) = GetWrapperCtxCookie pRCW
      then probed_slots crt pRCW pItfMT else []) \<and>
   fst (GetCOMIPFromRCW_GetIUnknownFromRCWCache crt pRCW pItfMT tr) =
     (if IsFreeThreaded pRCW \<or> pCurrentCtx (GetOrCreateOleTlsData crt) = GetWrapperCtxCookie pRCW
      then cache_lookup crt pRCW pItfMT else NULL)"
  using probed_slots_nonempty [of crt pRCW pItfMT]
  by (simp add: cache_fast_path context_accepted_def)

lemma find_upt_first:
  "k < n \<Longrightarrow> P k \<Longrightarrow> (\<forall>j<k. \<not> P j) \<Longrightarrow> find P [0 ..< n] = Some k"
  by (simp add: find_Some_iff) (rule exI [of _ k], simp)

lemma refresh_slot_first:
  "0 < INTERFACE_ENTRY_CACHE_SIZE crt \<Longrightarrow>
   refresh_slot crt pRCW pItfMT < INTERFACE_ENTRY_CACHE_SIZE crt \<and>
   (\<forall>j < refresh_slot crt pRCW pItfMT. m_pMT (m_aInterfaceEntries pRCW j) \<noteq> pItfMT)"
proof -
  assume pos: "0 < INTERFACE_ENTRY_CACHE_SIZE crt"
  let ?n = "INTERFACE_ENTRY_CACHE_SIZE crt"
  let ?P = "\<lambda>i. m_pMT (m_aInterfaceEntries pRCW i) = pItfMT"
  show ?thesis
  proof (cases "find ?P [0 ..< ?n]")
    case (Some i)
    then have slot: "refresh_slot crt pRCW pItfMT = i"
      by (simp add: refresh_slot_def)
    from Some have "i < ?n \<and> (\<forall>j < i. \<not> ?P j)"
      by (auto simp: find_Some_iff)
    with slot show ?thesis
      by simp
  next
    case None
    then have no: "\<forall>j < ?n. \<not> ?P j"
      by (simp add: find_None_iff)
    have lt: "refresh_slot crt pRCW pItfMT < ?n"
      using None pos by (auto simp: refresh_slot_def find_Some_iff split: option.splits)
    have "\<not> ?P j" if "j < refresh_slot crt pRCW pItfMT" for j
    proof -
      from that lt have "j < ?n" by (rule less_trans)
      with no show ?thesis by blast
    qed
    with lt show ?thesis
      by blast
  qed
qed

lemma refresh_cache_lookup:
  assumes "0 < INTERFACE_ENTRY_CACHE_SIZE crt"
  shows "cache_lookup crt (refresh_cache crt pRCW pItfMT pUnk) pItfMT = pUnk"
proof -
  let ?s = "refresh_slot crt pRCW pItfMT"
  let ?es = "(m_aInterfaceEntries pRCW)(?s := \<lparr>m_pMT = pItfMT, m_pUnknown = pUnk\<rparr>)"
  have s: "?s < INTERFACE_ENTRY_CACHE_SIZE crt" "\<forall>j < ?s. m_pMT (m_aInterfaceEntries pRCW j) \<noteq> pItfMT"
    using refresh_slot_first [OF assms] by auto
  have "find (\<lambda>i. m_pMT (?es i) = pItfMT) [0 ..< INTERFACE_ENTRY_CACHE_SIZE crt] = Some ?s"
    using s by (intro find_upt_first) auto
  then show ?thesis
    using assms by (simp add: cache_lookup_def refresh_cache_def)
qed

lemma refresh_cache_lookup_or:
  "cache_lookup crt (refresh_cache crt pRCW pItfMT pUnk) pItfMT \<noteq> pUnk \<Longrightarrow> INTERFACE_ENTRY_CACHE_SIZE crt = 0"
  using refresh_cache_lookup [of crt pRCW pItfMT pUnk] by auto

text \<open>
  Claim C3. On a hit of the fast path \<open>GetCOMIPFromRCW\<close> returns the cached pointer with
  \<open>*pfNeedsRelease\<close> false and \<open>*ppTarget\<close> its dispatch slot, and never calls the resolver.
  In every other case (no wrapper, context not accepted, no cached pointer, or a null
  dispatch slot) it calls the resolver exactly once with \<open>*pfNeedsRelease\<close> true; when the
  query succeeds it returns the resolved pointer with \<open>*ppTarget\<close> its dispatch slot, and
  the wrapper's cache then holds that pointer for the interface.
\<close>

theorem GetCOMIPFromRCW_paths:
  "(if fast_path_hit crt st pSrc md
    then (\<exists>pRCW. GetRawRCW st pSrc = Some pRCW \<and>
            fst (GetCOMIPFromRCW crt pSrc md st) =
              Inr (cache_lookup crt pRCW (m_pInterfaceMT (FromMethodDesc crt md))) \<and>
            ppTarget (snd (GetCOMIPFromRCW crt pSrc md st)) =
              GetCOMIPFromRCW_GetTarget crt (cache_lookup crt pRCW (m_pInterfaceMT (FromMethodDesc crt md)))
                (FromMethodDesc crt md)) \<and>
         pfNeedsRelease (snd (GetCOMIPFromRCW crt pSrc md st)) = False \<and>
         resolver_calls (com_calls (snd (GetCOMIPFromRCW crt pSrc md st))) = resolver_calls (com_calls st) \<and>
         GetRawRCW (snd (GetCOMIPFromRCW crt pSrc md st)) = GetRawRCW st
    else resolver_calls (com_calls (snd (GetCOMIPFromRCW crt pSrc md st))) =
           resolver_calls (com_calls st) @ [(pSrc, m_pInterfaceMT (FromMethodDesc crt md))] \<and>
         pfNeedsRelease (snd (GetCOMIPFromRCW crt pSrc md st)) = True \<and>
         (case resolveInterface crt pSrc (m_pInterfaceMT (FromMethodDesc crt md)) of
            Inl x \<Rightarrow> fst (GetCOMIPFromRCW crt pSrc md st) = Inl (Thrown x)
          | Inr pUnk \<Rightarrow>
              fst (GetCOMIPFromRCW crt pSrc md st) = Inr pUnk \<and>
              ppTarget (snd (GetCOMIPFromRCW crt pSrc md st)) =
                GetCOMIPFromRCW_GetTarget crt pUnk (FromMethodDesc crt md) \<and>
              (case GetRawRCW st pSrc of
                 None \<Rightarrow> GetRawRCW (snd (GetCOMIPFromRCW crt pSrc md st)) = GetRawRCW st
               | Some pRCW \<Rightarrow>
                   (\<exists>pRCW'. GetRawRCW (snd (GetCOMIPFromRCW crt pSrc md st)) pSrc = Some pRCW' \<and>
                      (INTERFACE_ENTRY_CACHE_SIZE crt = 0 \<or>
                       cache_lookup crt pRCW' (m_pInterfaceMT (FromMethodDesc crt md)) = pUnk)))))"
  by (auto simp: GetCOMIPFromRCW_def GetCOMIPFromRCW_slow_def GetCOMIPFromRCWHelper_def
        GetComIPFromRCWThrowing_def GetCOMIPFromRCW_ClearFP_def fast_path_hit_def cache_fast_path
        Let_def
      dest: refresh_cache_lookup_or
      split: option.splits sum.splits)

text \<open>
  Claim C10. Every call writes \<open>*pfNeedsRelease\<close>: false first, before the cache is read;
  and, unless the fast path hits, true next, before the resolver is called. So when the
  resolver's query fails, the call raises that failure, returns no pointer, and leaves
  the flag true.
\<close>

theorem GetCOMIPFromRCW_flag:
  "com_calls (snd (GetCOMIPFromRCW crt pSrc md st)) =
     com_calls st @
     Ev_Write_pfNeedsRelease False # map Ev_CacheProbe (scanned_slots crt st pSrc md) @
     (if fast_path_hit crt st pSrc md then [Ev_ClearFP]
      else Ev_Write_pfNeedsRelease True #
           Ev_GetComIPFromRCWThrowing pSrc (m_pInterfaceMT (FromMethodDesc crt md)) #
           (case resolveInterface crt pSrc (m_pInterfaceMT (FromMethodDesc crt md)) of
              Inl x \<Rightarrow> [] | Inr pUnk \<Rightarrow> [Ev_ClearFP])) \<and>
   pfNeedsRelease (snd (GetCOMIPFromRCW crt pSrc md st)) = (\<not> fast_path_hit crt st pSrc md) \<and>
   (\<forall>x. \<not> fast_path_hit crt st pSrc md \<and>
        resolveInterface crt pSrc (m_pInterfaceMT (FromMethodDesc crt md)) = Inl x \<longrightarrow>
        fst (GetCOMIPFromRCW crt pSrc md st) = Inl (Thrown x) \<and>
        pfNeedsRelease (snd (GetCOMIPFromRCW crt pSrc md st)) = True)"
  by (auto simp: GetCOMIPFromRCW_def GetCOMIPFromRCW_slow_def GetCOMIPFromRCWHelper_def
        GetComIPFromRCWThrowing_def GetCOMIPFromRCW_ClearFP_def fast_path_hit_def cache_fast_path
        scanned_slots_def Let_def
      split: option.splits sum.splits)

lemma upt_4: "[0 ..< 4] = [0, 1, 2, 3]"
  by (simp add: upt_rec)

lemma example_lookup:
  "cache_lookup example_com_runtime example_wrapper pItfMT = (if pItfMT = 301 then 801 else NULL)"
  "probed_slots example_com_runtime example_wrapper pItfMT =
     (if pItfMT = 301 then [0] else if pItfMT = NULL then [0, 1] else [0, 1, 2, 3])"
  by (auto simp: cache_lookup_def probed_slots_def example_com_runtime_def example_wrapper_def upt_4)

lemma example_context:
  "INTERFACE_ENTRY_CACHE_SIZE example_com_runtime = 4"
  "pCurrentCtx (GetOrCreateOleTlsData example_com_runtime) = 77"
  "GetWrapperCtxCookie example_wrapper = 77" "\<not> IsFreeThreaded example_wrapper"
  "GetWrapperCtxCookie free_threaded_wrapper = 55" "IsFreeThreaded free_threaded_wrapper"
  "GetWrapperCtxCookie foreign_wrapper = 55" "\<not> IsFreeThreaded foreign_wrapper"
  "m_aInterfaceEntries free_threaded_wrapper = m_aInterfaceEntries example_wrapper"
  "m_aInterfaceEntries foreign_wrapper = m_aInterfaceEntries example_wrapper"
  by (simp_all add: GetOrCreateOleTlsData_def example_com_runtime_def example_wrapper_def
        free_threaded_wrapper_def foreign_wrapper_def)

lemma lookup_entries:
  "m_aInterfaceEntries pRCW' = m_aInterfaceEntries pRCW \<Longrightarrow>
   cache_lookup crt pRCW' pItfMT = cache_lookup crt pRCW pItfMT \<and>
   probed_slots crt pRCW' pItfMT = probed_slots crt pRCW pItfMT"
  by (simp add: cache_lookup_def probed_slots_def split: option.splits)

text \<open>
  The thread is in context 77. The wrapper of that context and the free-threaded wrapper of
  context 55 are read (one probe, a hit); the wrapper bound to context 55 is not.
\<close>

theorem GetIUnknownFromRCWCache_scans_witness:
  "0 < INTERFACE_ENTRY_CACHE_SIZE example_com_runtime \<and>
   pCurrentCtx (GetOrCreateOleTlsData example_com_runtime) = 77 \<and>
   GetCOMIPFromRCW_GetIUnknownFromRCWCache example_com_runtime example_wrapper 301 [] = (801, [Ev_CacheProbe 0]) \<and>
   IsFreeThreaded free_threaded_wrapper \<and> GetWrapperCtxCookie free_threaded_wrapper = 55 \<and>
   GetCOMIPFromRCW_GetIUnknownFromRCWCache example_com_runtime free_threaded_wrapper 301 [] = (801, [Ev_CacheProbe 0]) \<and>
   \<not> IsFreeThreaded foreign_wrapper \<and> GetWrapperCtxCookie foreign_wrapper = 55 \<and>
   GetCOMIPFromRCW_GetIUnknownFromRCWCache example_com_runtime foreign_wrapper 301 [] = (NULL, [])"
  using GetIUnknownFromRCWCache_scans [of example_com_runtime example_wrapper 301 "[]"]
        GetIUnknownFromRCWCache_scans [of example_com_runtime free_threaded_wrapper 301 "[]"]
        GetIUnknownFromRCWCache_scans [of example_com_runtime foreign_wrapper 301 "[]"]
  by (simp add: cache_fast_path context_accepted_def example_context example_lookup
        lookup_entries [of free_threaded_wrapper example_wrapper]
        lookup_entries [of foreign_wrapper example_wrapper])

lemma example_call:
  "GetRawRCW example_com_state 2000 = Some example_wrapper"
  "GetRawRCW example_com_state 2001 = None"
  "com_calls example_com_state = []"
  "m_pInterfaceMT (FromMethodDesc example_com_runtime md) = 300 + md"
  "GetCOMIPFromRCW_GetTarget example_com_runtime pUnk (FromMethodDesc example_com_runtime md) = pUnk * 10 + 3"
  "resolveInterface example_com_runtime pSrc 302 = Inl E_NOINTERFACE"
  "resolveInterface example_com_runtime pSrc 303 = Inr 803"
  "resolveInterface example_com_runtime pSrc 301 = Inr 801"
  by (simp_all add: example_com_state_def example_com_runtime_def GetCOMIPFromRCW_GetTarget_def)

lemma example_hit:
  "fast_path_hit example_com_runtime example_com_state 2000 md = (md = 1)"
  "fast_path_hit example_com_runtime example_com_state 2001 md = False"
  "scanned_slots example_com_runtime example_com_state 2000 md =
     (if md = 1 then [0] else [0, 1, 2, 3])"
  "scanned_slots example_com_runtime example_com_state 2001 md = []"
  by (simp_all add: fast_path_hit_def scanned_slots_def example_call example_lookup context_accepted_def
        example_context)

text \<open>
  Method 1 on object 2000 hits the cache. Method 3 misses: the resolver runs once and the
  cache holds its result afterwards. Object 2001 has no wrapper: the resolver runs once.
\<close>

theorem GetCOMIPFromRCW_paths_witness:
  "fast_path_hit example_com_runtime example_com_state 2000 1 \<and>
   fst (GetCOMIPFromRCW example_com_runtime 2000 1 example_com_state) = Inr 801 \<and>
   ppTarget (snd (GetCOMIPFromRCW example_com_runtime 2000 1 example_com_state)) = 8013 \<and>
   pfNeedsRelease (snd (GetCOMIPFromRCW example_com_runtime 2000 1 example_com_state)) = False \<and>
   resolver_calls (com_calls (snd (GetCOMIPFromRCW example_com_runtime 2000 1 example_com_state))) = [] \<and>
   \<not> fast_path_hit example_com_runtime example_com_state 2000 3 \<and>
   fst (GetCOMIPFromRCW example_com_runtime 2000 3 example_com_state) = Inr 803 \<and>
   ppTarget (snd (GetCOMIPFromRCW example_com_runtime 2000 3 example_com_state)) = 8033 \<and>
   pfNeedsRelease (snd (GetCOMIPFromRCW example_com_runtime 2000 3 example_com_state)) = True \<and>
   resolver_calls (com_calls (snd (GetCOMIPFromRCW example_com_runtime 2000 3 example_com_state))) =
     [(2000, 303)] \<and>
   (\<exists>pRCW'. GetRawRCW (snd (GetCOMIPFromRCW example_com_runtime 2000 3 example_com_state)) 2000 = Some pRCW' \<and>
      cache_lookup example_com_runtime pRCW' 303 = 803) \<and>
   \<not> fast_path_hit example_com_runtime example_com_state 2001 1 \<and>
   fst (GetCOMIPFromRCW example_com_runtime 2001 1 example_com_state) = Inr 801 \<and>
   pfNeedsRelease (snd (GetCOMIPFromRCW example_com_runtime 2001 1 example_com_state)) = True \<and>
   resolver_calls (com_calls (snd (GetCOMIPFromRCW example_com_runtime 2001 1 example_com_state))) =
     [(2001, 301)]"
  using GetCOMIPFromRCW_paths [of example_com_runtime example_com_state 2000 1]
        GetCOMIPFromRCW_paths [of example_com_runtime example_com_state 2000 3]
        GetCOMIPFromRCW_paths [of example_com_runtime example_com_state 2001 1]
  by (simp add: example_hit example_call example_lookup example_context)

text \<open>Method 2 on object 2000: the query for interface 302 fails, and the flag is left true.\<close>

theorem GetCOMIPFromRCW_flag_witness:
  "\<not> fast_path_hit example_com_runtime example_com_state 2000 2 \<and>
   resolveInterface example_com_runtime 2000 (m_pInterfaceMT (FromMethodDesc example_com_runtime 2)) =
     Inl E_NOINTERFACE \<and>
   fst (GetCOMIPFromRCW example_com_runtime 2000 2 example_com_state) = Inl (Thrown E_NOINTERFACE) \<and>
   pfNeedsRelease (snd (GetCOMIPFromRCW example_com_runtime 2000 2 example_com_state)) = True \<and>
   com_calls (snd (GetCOMIPFromRCW example_com_runtime 2000 2 example_com_state)) =
     [Ev_Write_pfNeedsRelease False, Ev_CacheProbe 0, Ev_CacheProbe 1, Ev_CacheProbe 2, Ev_CacheProbe 3,
      Ev_Write_pfNeedsRelease True, Ev_GetComIPFromRCWThrowing 2000 302] \<and>
   pfNeedsRelease (snd (GetCOMIPFromRCW example_com_runtime 2000 1 example_com_state)) = False \<and>
   com_calls (snd (GetCOMIPFromRCW example_com_runtime 2000 1 example_com_state)) =
     [Ev_Write_pfNeedsRelease False, Ev_CacheProbe 0, Ev_ClearFP]"
  using GetCOMIPFromRCW_flag [of example_com_runtime 2000 2 example_com_state]
        GetCOMIPFromRCW_flag [of example_com_runtime 2000 1 example_com_state]
  by (simp add: example_hit example_call)

end
